theory Spec2Isabelle
  imports Complex_Main "HOL-Library.Word" "HOL-Library.Log_Nat"
begin

unbundle bit_operations_syntax

section \<open>Go values: errors, machine integers, float64\<close>

text \<open>
  A Go function returning \<open>(T, error)\<close> is a function into \<open>error + T\<close>; \<open>Inl\<close> is the
  non-nil error. \<open>fmt.Errorf("...")\<close> is \<open>Errorf\<close>, \<open>fmt.Errorf("...: %w", err)\<close> is
  \<open>Wrapf\<close> around the wrapped error, a run-time panic (index out of range, nil
  dereference, negative shift count, negative slice length) is \<open>Panic\<close>. Numbers
  formatted into a message (\<open>%d\<close>) are left out of the message text.
\<close>

datatype error = Errorf string | Wrapf string error | Panic string

definition bindE :: "error + 'a \<Rightarrow> ('a \<Rightarrow> error + 'b) \<Rightarrow> error + 'b" where
  "bindE r f = (case r of Inl err \<Rightarrow> Inl err | Inr x \<Rightarrow> f x)"

definition wrapE :: "string \<Rightarrow> error + 'a \<Rightarrow> error + 'a" where
  "wrapE msg r = (case r of Inl err \<Rightarrow> Inl (Wrapf msg err) | Inr x \<Rightarrow> Inr x)"

text \<open>
  Go's \<open>int\<close> is 64 bits wide on the supported platforms: the result of an arithmetic
  operation is reduced to the two's complement range by \<open>wrap64\<close>.
\<close>

definition wrap64 :: "int \<Rightarrow> int" where
  "wrap64 x = signed_take_bit 63 x"

definition in_int64 :: "int \<Rightarrow> bool" where
  "in_int64 x = (- (2 ^ 63) \<le> x \<and> x < 2 ^ 63)"

text \<open>\<open>1 << n\<close> on \<open>int\<close>: a negative count panics, a count of 64 or more gives 0.\<close>

definition shl1 :: "int \<Rightarrow> error + int" where
  "shl1 n = (if n < 0 then Inl (Panic ''negative shift amount'')
             else Inr (wrap64 (push_bit (nat n) 1)))"

text \<open>
  A \<open>float64\<close> is a finite real, an infinity or NaN. Only comparison with constants
  and \<open>math.Ldexp(1.0, e)\<close> are needed: the latter is the exact power of two for
  \<open>-1074 \<le> e \<le> 1023\<close>, overflows to \<open>+Inf\<close> above and underflows to 0 below.
  Comparisons with a NaN operand are false.
\<close>

datatype float64 = Finite real | PosInf | NegInf | NaN

fun f64_less :: "float64 \<Rightarrow> float64 \<Rightarrow> bool" where
  "f64_less NaN _ = False"
| "f64_less _ NaN = False"
| "f64_less (Finite a) (Finite b) = (a < b)"
| "f64_less (Finite a) PosInf = True"
| "f64_less (Finite a) NegInf = False"
| "f64_less PosInf _ = False"
| "f64_less NegInf NegInf = False"
| "f64_less NegInf _ = True"

definition pow2 :: "int \<Rightarrow> real" where
  "pow2 e = (if 0 \<le> e then 2 ^ nat e else 1 / 2 ^ nat (- e))"

definition Ldexp1 :: "int \<Rightarrow> float64" where
  "Ldexp1 e = (if e > 1023 then PosInf else if e < - 1074 then Finite 0
               else Finite (pow2 e))"

section \<open>The CKKS evaluator facade (pkg/he/evaluator.go)\<close>

text \<open>
  The HE backend (Lattigo's \<open>ckks.Evaluator\<close>, \<open>rlwe.Ciphertext\<close> and the
  bootstrapping evaluator) is an external library: its operations are the fields of
  a record over an opaque ciphertext type \<open>'c\<close>, each of which may fail. Constants
  passed as \<open>complex128\<close> are always real in this repository and are reals here.
  \<open>CopyNew\<close> is the identity on values; an in-place operation returns the new value
  of its target: \<open>ckks_Add\<close> is the backend's \<open>Add(op0, op1, op0)\<close>, and
  \<open>ckks_MulConst\<close>, \<open>ckks_AddConst\<close> and \<open>ckks_Rescale\<close> are its \<open>Mul\<close>, \<open>Add\<close> and
  \<open>Rescale\<close> writing into a fresh copy. The operation counters and timers of
  \<open>Stats\<close> influence no result and are left out.
\<close>

record 'c backend =
  ckks_MaxSlots :: int
  ct_Level :: "'c \<Rightarrow> int"
  rlwe_NewCiphertext :: "int \<Rightarrow> 'c"
  ckks_AddNew :: "'c \<Rightarrow> 'c \<Rightarrow> error + 'c"
  ckks_Add :: "'c \<Rightarrow> 'c \<Rightarrow> error + 'c"
  ckks_SubNew :: "'c \<Rightarrow> 'c \<Rightarrow> error + 'c"
  ckks_MulRelinNew :: "'c \<Rightarrow> 'c \<Rightarrow> error + 'c"
  ckks_MulConst :: "'c \<Rightarrow> real \<Rightarrow> error + 'c"
  ckks_AddConst :: "'c \<Rightarrow> real \<Rightarrow> error + 'c"
  ckks_Rescale :: "'c \<Rightarrow> error + 'c"
  ckks_RotateNew :: "'c \<Rightarrow> int \<Rightarrow> error + 'c"

record 'c bootstrapping_Evaluator =
  MinimumInputLevel :: int
  btp_Bootstrap :: "'c \<Rightarrow> error + 'c"

record 'c Evaluator =
  evaluator :: "'c backend"
  bootstrapper :: "'c bootstrapping_Evaluator option"
  minLevel :: int

definition NewEvaluator ::
  "'c backend \<Rightarrow> 'c bootstrapping_Evaluator option \<Rightarrow> 'c Evaluator" where
  "NewEvaluator be btp =
     \<lparr>evaluator = be, bootstrapper = btp,
      minLevel = (case btp of None \<Rightarrow> 2 | Some b \<Rightarrow> MinimumInputLevel b)\<rparr>"

definition Slots :: "'c Evaluator \<Rightarrow> int" where
  "Slots e = ckks_MaxSlots (evaluator e)"

definition Level :: "'c Evaluator \<Rightarrow> 'c \<Rightarrow> int" where
  "Level e ct = ct_Level (evaluator e) ct"

definition NeedsBootstrap :: "'c Evaluator \<Rightarrow> 'c \<Rightarrow> bool" where
  "NeedsBootstrap e ct = (ct_Level (evaluator e) ct \<le> minLevel e)"

definition CanBootstrap :: "'c Evaluator \<Rightarrow> bool" where
  "CanBootstrap e = (bootstrapper e \<noteq> None)"

definition Bootstrap :: "'c Evaluator \<Rightarrow> 'c \<Rightarrow> error + 'c" where
  "Bootstrap e ct =
     (case bootstrapper e of
        None \<Rightarrow> Inl (Errorf ''bootstrapping not available'')
      | Some b \<Rightarrow> wrapE ''bootstrap failed'' (btp_Bootstrap b ct))"

definition MaybeBootstrap :: "'c Evaluator \<Rightarrow> 'c \<Rightarrow> error + 'c" where
  "MaybeBootstrap e ct =
     (if NeedsBootstrap e ct \<and> CanBootstrap e then Bootstrap e ct else Inr ct)"

definition Add :: "'c Evaluator \<Rightarrow> 'c \<Rightarrow> 'c \<Rightarrow> error + 'c" where
  "Add e op0 op1 = wrapE ''add failed'' (ckks_AddNew (evaluator e) op0 op1)"

definition AddInPlace :: "'c Evaluator \<Rightarrow> 'c \<Rightarrow> 'c \<Rightarrow> error + 'c" where
  "AddInPlace e op0 op1 = wrapE ''add in place failed'' (ckks_Add (evaluator e) op0 op1)"

definition Sub :: "'c Evaluator \<Rightarrow> 'c \<Rightarrow> 'c \<Rightarrow> error + 'c" where
  "Sub e op0 op1 = wrapE ''sub failed'' (ckks_SubNew (evaluator e) op0 op1)"

definition Mul :: "'c Evaluator \<Rightarrow> 'c \<Rightarrow> 'c \<Rightarrow> error + 'c" where
  "Mul e op0 op1 = wrapE ''mul failed'' (ckks_MulRelinNew (evaluator e) op0 op1)"

definition MulConst :: "'c Evaluator \<Rightarrow> 'c \<Rightarrow> real \<Rightarrow> error + 'c" where
  "MulConst e ct c = wrapE ''mul const failed'' (ckks_MulConst (evaluator e) ct c)"

definition AddConst :: "'c Evaluator \<Rightarrow> 'c \<Rightarrow> real \<Rightarrow> error + 'c" where
  "AddConst e ct c = wrapE ''add const failed'' (ckks_AddConst (evaluator e) ct c)"

definition Rescale :: "'c Evaluator \<Rightarrow> 'c \<Rightarrow> error + 'c" where
  "Rescale e ct = wrapE ''rescale failed'' (ckks_Rescale (evaluator e) ct)"

definition Rotate :: "'c Evaluator \<Rightarrow> 'c \<Rightarrow> int \<Rightarrow> error + 'c" where
  "Rotate e ct k = wrapE ''rotate failed'' (ckks_RotateNew (evaluator e) ct k)"

definition ZeroCiphertextLike :: "'c Evaluator \<Rightarrow> 'c \<Rightarrow> 'c" where
  "ZeroCiphertextLike e x = rlwe_NewCiphertext (evaluator e) (ct_Level (evaluator e) x)"


text \<open>
  \<open>SumSlots\<close>: \<open>for rot := 1; rot < slots; rot *= 2\<close>. The counter starts at 1 and is
  only doubled, so \<open>0 < rot\<close> holds throughout; it is part of the guard here because
  it is what makes the loop terminate. The slot count of a parameter set is a power
  of two far below \<open>2^62\<close>, so the doubling does not overflow.
\<close>

function SumSlots_loop :: "'c Evaluator \<Rightarrow> int \<Rightarrow> int \<Rightarrow> 'c \<Rightarrow> error + 'c" where
  "SumSlots_loop e slots rot result =
     (if 0 < rot \<and> rot < slots then
        bindE (wrapE ''sum slots rotation failed'' (Rotate e result rot)) (\<lambda>rotated.
        bindE (wrapE ''sum slots add failed'' (AddInPlace e result rotated)) (\<lambda>result'.
        SumSlots_loop e slots (rot * 2) result'))
      else Inr result)"
  by pat_completeness auto
termination
  by (relation "measure (\<lambda>(e, slots, rot, result). nat (slots - rot))") auto

definition SumSlots :: "'c Evaluator \<Rightarrow> 'c \<Rightarrow> error + 'c" where
  "SumSlots e ct = SumSlots_loop e (Slots e) 1 ct"

text \<open>
  \<open>Power\<close>: binary exponentiation. The loop state is
  \<open>(result, base, power, first)\<close>, with \<open>pwr\<close> for the variable \<open>power\<close>;
  \<open>power >>= 1\<close> on a positive \<open>int\<close> is division by 2.
\<close>

function Power_loop :: "'c Evaluator \<Rightarrow> 'c \<Rightarrow> 'c \<Rightarrow> int \<Rightarrow> bool \<Rightarrow> error + 'c" where
  "Power_loop e result base pwr first =
     (if pwr > 0 then
        bindE (if pwr AND 1 = 1 then
                 (if first then Inr (base, False)
                  else bindE (Mul e result base) (\<lambda>r.
                       bindE (Rescale e r) (\<lambda>r. Inr (r, first))))
               else Inr (result, first)) (\<lambda>(result', first').
        bindE (if pwr div 2 > 0 then
                 bindE (Mul e base base) (\<lambda>b. Rescale e b)
               else Inr base) (\<lambda>base'.
        Power_loop e result' base' (pwr div 2) first'))
      else Inr result)"
  by pat_completeness auto
termination
  by (relation "measure (\<lambda>(e, result, base, pwr, first). nat pwr)") auto

definition Power :: "'c Evaluator \<Rightarrow> 'c \<Rightarrow> int \<Rightarrow> error + 'c" where
  "Power e ct n =
     (if n < 1 then Inl (Errorf ''power must be positive'')
      else if n = 1 then Inr ct
      else Power_loop e ct ct n True)"

section \<open>Numeric aggregation (package numeric)\<close>

text \<open>
  A \<open>NumericOp\<close> holds nothing but its evaluator, which is passed directly. The
  accumulator \<open>result\<close> of the block loops is a pointer that starts as \<open>nil\<close>:
  \<open>None\<close> here. The loops index both block lists by the index of the first; the
  length checks in front make the lists equally long.
\<close>

fun MaskedSum_loop ::
  "'c Evaluator \<Rightarrow> 'c list \<Rightarrow> 'c list \<Rightarrow> 'c option \<Rightarrow> error + 'c option" where
  "MaskedSum_loop e [] vBlocks result = Inr result"
| "MaskedSum_loop e (x # xBlocks) [] result = Inl (Panic ''index out of range'')"
| "MaskedSum_loop e (x # xBlocks) (v # vBlocks) result =
     bindE (wrapE ''block mul failed'' (Mul e x v)) (\<lambda>masked.
     bindE (wrapE ''block rescale failed'' (Rescale e masked)) (\<lambda>masked.
     bindE (case result of
              None \<Rightarrow> Inr (Some masked)
            | Some r \<Rightarrow> bindE (wrapE ''block add failed'' (AddInPlace e r masked))
                          (\<lambda>r'. Inr (Some r'))) (\<lambda>result'.
     MaskedSum_loop e xBlocks vBlocks result')))"

definition SumSlots_ptr :: "'c Evaluator \<Rightarrow> 'c option \<Rightarrow> error + 'c" where
  "SumSlots_ptr e result =
     (case result of None \<Rightarrow> Inl (Panic ''nil pointer dereference'')
                   | Some r \<Rightarrow> SumSlots e r)"

definition MaskedSum :: "'c Evaluator \<Rightarrow> 'c list \<Rightarrow> 'c list \<Rightarrow> error + 'c" where
  "MaskedSum e xBlocks vBlocks =
     (if length xBlocks \<noteq> length vBlocks then Inl (Errorf ''block count mismatch'')
      else if length xBlocks = 0 then Inl (Errorf ''no blocks provided'')
      else bindE (MaskedSum_loop e xBlocks vBlocks None) (SumSlots_ptr e))"

fun Count_loop :: "'c Evaluator \<Rightarrow> 'c list \<Rightarrow> 'c option \<Rightarrow> error + 'c option" where
  "Count_loop e [] result = Inr result"
| "Count_loop e (v # vBlocks) result =
     bindE (case result of
              None \<Rightarrow> Inr (Some v)
            | Some r \<Rightarrow> bindE (wrapE ''block add failed'' (AddInPlace e r v))
                          (\<lambda>r'. Inr (Some r'))) (\<lambda>result'.
     Count_loop e vBlocks result')"

definition Count :: "'c Evaluator \<Rightarrow> 'c list \<Rightarrow> error + 'c" where
  "Count e vBlocks =
     (if length vBlocks = 0 then Inl (Errorf ''no blocks provided'')
      else bindE (Count_loop e vBlocks None) (SumSlots_ptr e))"

fun MaskedSumOfSquares_loop ::
  "'c Evaluator \<Rightarrow> 'c list \<Rightarrow> 'c list \<Rightarrow> 'c option \<Rightarrow> error + 'c option" where
  "MaskedSumOfSquares_loop e [] vBlocks result = Inr result"
| "MaskedSumOfSquares_loop e (x # xBlocks) [] result =
     bindE (wrapE ''block square failed'' (Mul e x x)) (\<lambda>xSquared.
     bindE (wrapE ''block rescale1 failed'' (Rescale e xSquared)) (\<lambda>xSquared.
     Inl (Panic ''index out of range'')))"
| "MaskedSumOfSquares_loop e (x # xBlocks) (v # vBlocks) result =
     bindE (wrapE ''block square failed'' (Mul e x x)) (\<lambda>xSquared.
     bindE (wrapE ''block rescale1 failed'' (Rescale e xSquared)) (\<lambda>xSquared.
     bindE (wrapE ''block mask failed'' (Mul e xSquared v)) (\<lambda>masked.
     bindE (wrapE ''block rescale2 failed'' (Rescale e masked)) (\<lambda>masked.
     bindE (case result of
              None \<Rightarrow> Inr (Some masked)
            | Some r \<Rightarrow> bindE (wrapE ''block add failed'' (AddInPlace e r masked))
                          (\<lambda>r'. Inr (Some r'))) (\<lambda>result'.
     MaskedSumOfSquares_loop e xBlocks vBlocks result')))))"

definition MaskedSumOfSquares :: "'c Evaluator \<Rightarrow> 'c list \<Rightarrow> 'c list \<Rightarrow> error + 'c" where
  "MaskedSumOfSquares e xBlocks vBlocks =
     (if length xBlocks \<noteq> length vBlocks then Inl (Errorf ''block count mismatch'')
      else if length xBlocks = 0 then Inl (Errorf ''no blocks provided'')
      else bindE (MaskedSumOfSquares_loop e xBlocks vBlocks None) (SumSlots_ptr e))"

fun MaskedCrossSum_loop ::
  "'c Evaluator \<Rightarrow> 'c list \<Rightarrow> 'c list \<Rightarrow> 'c list \<Rightarrow> 'c option \<Rightarrow> error + 'c option" where
  "MaskedCrossSum_loop e [] yBlocks vBlocks result = Inr result"
| "MaskedCrossSum_loop e (x # xBlocks) [] vBlocks result = Inl (Panic ''index out of range'')"
| "MaskedCrossSum_loop e (x # xBlocks) (y # yBlocks) [] result =
     bindE (wrapE ''block xy mul failed'' (Mul e x y)) (\<lambda>xy.
     bindE (wrapE ''block xy rescale failed'' (Rescale e xy)) (\<lambda>xy.
     Inl (Panic ''index out of range'')))"
| "MaskedCrossSum_loop e (x # xBlocks) (y # yBlocks) (v # vBlocks) result =
     bindE (wrapE ''block xy mul failed'' (Mul e x y)) (\<lambda>xy.
     bindE (wrapE ''block xy rescale failed'' (Rescale e xy)) (\<lambda>xy.
     bindE (wrapE ''block mask failed'' (Mul e xy v)) (\<lambda>masked.
     bindE (wrapE ''block masked rescale failed'' (Rescale e masked)) (\<lambda>masked.
     bindE (case result of
              None \<Rightarrow> Inr (Some masked)
            | Some r \<Rightarrow> bindE (wrapE ''block add failed'' (AddInPlace e r masked))
                          (\<lambda>r'. Inr (Some r'))) (\<lambda>result'.
     MaskedCrossSum_loop e xBlocks yBlocks vBlocks result')))))"

definition MaskedCrossSum ::
  "'c Evaluator \<Rightarrow> 'c list \<Rightarrow> 'c list \<Rightarrow> 'c list \<Rightarrow> error + 'c" where
  "MaskedCrossSum e xBlocks yBlocks vBlocks =
     (if length xBlocks \<noteq> length yBlocks \<or> length xBlocks \<noteq> length vBlocks
      then Inl (Errorf ''block count mismatch'')
      else if length xBlocks = 0 then Inl (Errorf ''no blocks provided'')
      else bindE (MaskedCrossSum_loop e xBlocks yBlocks vBlocks None) (SumSlots_ptr e))"


text \<open>
  \<open>INVNTHSQRT\<close>. The \<open>float64\<close> fields and constants of the Newton iteration are
  reals here (the slotwise plaintext model computes in exact arithmetic);
  \<open>config.N + 1\<close> is computed on \<open>int\<close> before the conversion.
\<close>

record INVNTHSQRTConfig =
  N :: int
  Iterations :: int
  BootstrapFrequency :: int
  InitialGuess :: real

definition DefaultINVConfig :: INVNTHSQRTConfig where
  "DefaultINVConfig = \<lparr>N = 1, Iterations = 25, BootstrapFrequency = 5, InitialGuess = 0.5\<rparr>"

definition DefaultINVSQRTConfig :: INVNTHSQRTConfig where
  "DefaultINVSQRTConfig = \<lparr>N = 2, Iterations = 21, BootstrapFrequency = 5, InitialGuess = 0.5\<rparr>"

text \<open>The body of the loop \<open>for iter := 0; iter < config.Iterations; iter++\<close>.\<close>

definition INVNTHSQRT_iter ::
  "'c Evaluator \<Rightarrow> INVNTHSQRTConfig \<Rightarrow> 'c \<Rightarrow> int \<Rightarrow> 'c \<Rightarrow> error + 'c" where
  "INVNTHSQRT_iter e config x iter yCt =
     (let nPlusOne = real_of_int (wrap64 (N config + 1));
          nFloat = real_of_int (N config);
          invN = 1 / nFloat
      in
        bindE (if BootstrapFrequency config > 0 \<and> iter > 0
                  \<and> iter mod BootstrapFrequency config = 0 \<and> NeedsBootstrap e yCt
               then wrapE ''iteration bootstrap failed'' (Bootstrap e yCt)
               else Inr yCt) (\<lambda>yCt.
        bindE (if N config = 1 then Inr yCt
               else wrapE ''iteration power failed'' (Power e yCt (N config))) (\<lambda>yN.
        bindE (wrapE ''iteration mul x*yN failed'' (Mul e x yN)) (\<lambda>xyN.
        bindE (wrapE ''iteration rescale failed'' (Rescale e xyN)) (\<lambda>xyN.
        bindE (wrapE ''iteration bootstrap xyN failed'' (MaybeBootstrap e xyN)) (\<lambda>xyN.
        bindE (wrapE ''iteration sub failed'' (AddConst e xyN (- nPlusOne))) (\<lambda>diff.
        bindE (wrapE ''iteration negate failed'' (MulConst e diff (- 1))) (\<lambda>diff.
        bindE (wrapE ''iteration mul y*diff failed'' (Mul e yCt diff)) (\<lambda>yNew.
        bindE (wrapE ''iteration final rescale failed'' (Rescale e yNew)) (\<lambda>yNew.
        bindE (wrapE ''iteration bootstrap yNew failed'' (MaybeBootstrap e yNew)) (\<lambda>yNew.
        wrapE ''iteration div by n failed'' (MulConst e yNew invN))))))))))))"

function INVNTHSQRT_loop ::
  "'c Evaluator \<Rightarrow> INVNTHSQRTConfig \<Rightarrow> 'c \<Rightarrow> int \<Rightarrow> 'c \<Rightarrow> error + 'c" where
  "INVNTHSQRT_loop e config x iter yCt =
     (if iter < Iterations config then
        bindE (INVNTHSQRT_iter e config x iter yCt) (\<lambda>yCt'.
        INVNTHSQRT_loop e config x (iter + 1) yCt')
      else Inr yCt)"
  by pat_completeness auto
termination
  by (relation "measure (\<lambda>(e, config, x, iter, yCt). nat (Iterations config - iter))") auto

definition INVNTHSQRT :: "'c Evaluator \<Rightarrow> 'c \<Rightarrow> INVNTHSQRTConfig \<Rightarrow> error + 'c" where
  "INVNTHSQRT e x config =
     (if N config < 1 then Inl (Errorf ''n must be positive'')
      else
        bindE (wrapE ''initial bootstrap failed'' (MaybeBootstrap e x)) (\<lambda>x.
        bindE (wrapE ''initial y setup failed''
                 (AddConst e (ZeroCiphertextLike e x) (InitialGuess config))) (\<lambda>yCt.
        INVNTHSQRT_loop e config x 0 yCt)))"

definition Mean :: "'c Evaluator \<Rightarrow> 'c list \<Rightarrow> 'c list \<Rightarrow> error + 'c" where
  "Mean e xBlocks vBlocks =
     bindE (wrapE ''masked sum failed'' (MaskedSum e xBlocks vBlocks)) (\<lambda>sumXV.
     bindE (wrapE ''count failed'' (Count e vBlocks)) (\<lambda>count.
     bindE (wrapE ''inverse count failed'' (INVNTHSQRT e count DefaultINVConfig)) (\<lambda>invCount.
     bindE (wrapE ''mean mul failed'' (Mul e sumXV invCount)) (\<lambda>mean.
     Rescale e mean))))"

definition Variance :: "'c Evaluator \<Rightarrow> 'c list \<Rightarrow> 'c list \<Rightarrow> error + 'c" where
  "Variance e xBlocks vBlocks =
     bindE (wrapE ''mean failed'' (Mean e xBlocks vBlocks)) (\<lambda>mean.
     bindE (wrapE ''sum of squares failed'' (MaskedSumOfSquares e xBlocks vBlocks)) (\<lambda>sumX2V.
     bindE (wrapE ''count failed'' (Count e vBlocks)) (\<lambda>count.
     bindE (wrapE ''inverse count failed'' (INVNTHSQRT e count DefaultINVConfig)) (\<lambda>invCount.
     bindE (wrapE ''E[X^2] mul failed'' (Mul e sumX2V invCount)) (\<lambda>eX2.
     bindE (wrapE ''E[X^2] rescale failed'' (Rescale e eX2)) (\<lambda>eX2.
     bindE (wrapE ''mean^2 failed'' (Mul e mean mean)) (\<lambda>meanSq.
     bindE (wrapE ''mean^2 rescale failed'' (Rescale e meanSq)) (\<lambda>meanSq.
     wrapE ''variance sub failed'' (Sub e eX2 meanSq)))))))))"

definition Stdev :: "'c Evaluator \<Rightarrow> 'c list \<Rightarrow> 'c list \<Rightarrow> error + 'c" where
  "Stdev e xBlocks vBlocks =
     bindE (wrapE ''variance failed'' (Variance e xBlocks vBlocks)) (\<lambda>variance.
     bindE (wrapE ''inv sqrt variance failed''
              (INVNTHSQRT e variance DefaultINVSQRTConfig)) (\<lambda>invSqrt.
     bindE (wrapE ''stdev mul failed'' (Mul e variance invSqrt)) (\<lambda>stdev.
     Rescale e stdev)))"

definition Correlation ::
  "'c Evaluator \<Rightarrow> 'c list \<Rightarrow> 'c list \<Rightarrow> 'c list \<Rightarrow> error + 'c" where
  "Correlation e xBlocks yBlocks vBlocks =
     bindE (wrapE ''mean x failed'' (Mean e xBlocks vBlocks)) (\<lambda>meanX.
     bindE (wrapE ''mean y failed'' (Mean e yBlocks vBlocks)) (\<lambda>meanY.
     bindE (wrapE ''sum xy failed'' (MaskedCrossSum e xBlocks yBlocks vBlocks)) (\<lambda>sumXY.
     bindE (wrapE ''count failed'' (Count e vBlocks)) (\<lambda>count.
     bindE (wrapE ''inv count failed'' (INVNTHSQRT e count DefaultINVConfig)) (\<lambda>invCount.
     bindE (wrapE ''E[XY] mul failed'' (Mul e sumXY invCount)) (\<lambda>eXY.
     bindE (wrapE ''E[XY] rescale failed'' (Rescale e eXY)) (\<lambda>eXY.
     bindE (wrapE ''E[X]*E[Y] failed'' (Mul e meanX meanY)) (\<lambda>eXeY.
     bindE (wrapE ''E[X]*E[Y] rescale failed'' (Rescale e eXeY)) (\<lambda>eXeY.
     bindE (wrapE ''cov sub failed'' (Sub e eXY eXeY)) (\<lambda>cov.
     bindE (wrapE ''var x failed'' (Variance e xBlocks vBlocks)) (\<lambda>varX.
     bindE (wrapE ''var y failed'' (Variance e yBlocks vBlocks)) (\<lambda>varY.
     bindE (wrapE ''inv sqrt var x failed''
              (INVNTHSQRT e varX DefaultINVSQRTConfig)) (\<lambda>invSqrtVarX.
     bindE (wrapE ''inv sqrt var y failed''
              (INVNTHSQRT e varY DefaultINVSQRTConfig)) (\<lambda>invSqrtVarY.
     bindE (wrapE ''corr mul1 failed'' (Mul e cov invSqrtVarX)) (\<lambda>corr.
     bindE (wrapE ''corr rescale1 failed'' (Rescale e corr)) (\<lambda>corr.
     bindE (wrapE ''corr mul2 failed'' (Mul e corr invSqrtVarY)) (\<lambda>corr.
     wrapE ''corr rescale2 failed'' (Rescale e corr))))))))))))))))))"

section \<open>Ordinal percentile: the flip mapping (package ordinal)\<close>

definition applyFlipMapping :: "'c Evaluator \<Rightarrow> 'c \<Rightarrow> error + 'c" where
  "applyFlipMapping e x =
     bindE (wrapE ''x^2 failed'' (Mul e x x)) (\<lambda>x2.
     bindE (wrapE ''x^2 rescale failed'' (Rescale e x2)) (\<lambda>x2.
     bindE (wrapE ''-0.5x^2 failed'' (MulConst e x2 (- 0.5))) (\<lambda>term1.
     bindE (wrapE ''0.5x failed'' (MulConst e x 0.5)) (\<lambda>term2.
     bindE (wrapE ''term1+term2 failed'' (Add e term1 term2)) (\<lambda>result.
     wrapE ''+1 failed'' (AddConst e result 1))))))"

text \<open>The mapping as the specification writes it.\<close>

definition flip_spec :: "real \<Rightarrow> real" where
  "flip_spec s = - 0.5 * (s - 0.5)\<^sup>2 + 1.125"


section \<open>Large bin count (package categorical)\<close>

text \<open>
  The repository holds two drafts of package \<open>categorical\<close>. The one stored with
  \<open>discrete_equal_zero.go\<close> has the bit offset \<open>DeltaOffset\<close> in its configuration, a
  validator, and an encoder writing powers of two; its names are kept. The draft in
  \<open>binop.go\<close> has no offset and no validator, and its encoder writes the category
  value itself; its definitions carry the suffix \<open>_binop\<close>. \<open>ComputeLBc\<close> is the same
  in both.
\<close>

record LBcConfig =
  Delta :: int
  DeltaOffset :: int
  LambdaBig :: int

definition DefaultLBcConfig :: LBcConfig where
  "DefaultLBcConfig = \<lparr>Delta = 10, DeltaOffset = 10, LambdaBig = 30\<rparr>"

definition ValidateLBcConfig :: "LBcConfig \<Rightarrow> int \<Rightarrow> error option" where
  "ValidateLBcConfig config categories =
     (let maxExp = wrap64 (DeltaOffset config + wrap64 (Delta config * wrap64 (categories - 1)))
      in if maxExp > 52 then Some (Errorf ''PBMV exponent overflow: > 52 bits'')
         else if LambdaBig config > 52 then Some (Errorf ''BBMV Lambda > 52 bits'')
         else None)"

record PBMVEncoder =
  pbmv_config :: LBcConfig
  pbmv_categories :: int
  pbmv_slots :: int

definition NewPBMVEncoder :: "int \<Rightarrow> int \<Rightarrow> LBcConfig \<Rightarrow> PBMVEncoder" where
  "NewPBMVEncoder categories slots config =
     \<lparr>pbmv_config = config, pbmv_categories = categories, pbmv_slots = slots\<rparr>"

text \<open>
  \<open>for i, v := range values\<close>: the loop stops at the first index \<open>i >= p.slots\<close> and
  skips a value outside \<open>1..categories\<close>.
\<close>

fun EncodePBMV_loop :: "PBMVEncoder \<Rightarrow> int \<Rightarrow> int list \<Rightarrow> float64 list \<Rightarrow> float64 list" where
  "EncodePBMV_loop p i [] result = result"
| "EncodePBMV_loop p i (v # values) result =
     (if i \<ge> pbmv_slots p then result
      else if v < 1 \<or> v > pbmv_categories p then EncodePBMV_loop p (i + 1) values result
      else
        let exp = wrap64 (DeltaOffset (pbmv_config p)
                    + wrap64 (Delta (pbmv_config p) * wrap64 (v - 1)))
        in EncodePBMV_loop p (i + 1) values (result[nat i := Ldexp1 exp]))"

definition EncodePBMV :: "PBMVEncoder \<Rightarrow> int list \<Rightarrow> error + float64 list" where
  "EncodePBMV p values =
     (if pbmv_slots p < 0 then Inl (Panic ''makeslice: len out of range'')
      else Inr (EncodePBMV_loop p 0 values (replicate (nat (pbmv_slots p)) (Finite 0))))"

record LBcConfig_binop =
  Delta_binop :: int
  LambdaBig_binop :: int

definition DefaultLBcConfig_binop :: LBcConfig_binop where
  "DefaultLBcConfig_binop = \<lparr>Delta_binop = 8, LambdaBig_binop = 10\<rparr>"

record PBMVEncoder_binop =
  pbmv_config_binop :: LBcConfig_binop
  pbmv_categories_binop :: int
  pbmv_slots_binop :: int

fun EncodePBMV_loop_binop ::
  "PBMVEncoder_binop \<Rightarrow> int \<Rightarrow> int \<Rightarrow> int list \<Rightarrow> float64 list \<Rightarrow> float64 list" where
  "EncodePBMV_loop_binop p spacing i [] result = result"
| "EncodePBMV_loop_binop p spacing i (v # values) result =
     (if i \<ge> pbmv_slots_binop p then result
      else if v \<ge> 1 \<and> v \<le> pbmv_categories_binop p then
        let pos = wrap64 (wrap64 (v - 1) * spacing)
        in if pos < pbmv_slots_binop p
           then EncodePBMV_loop_binop p spacing (i + 1) values
                  (result[nat i := Finite (real_of_int v)])
           else EncodePBMV_loop_binop p spacing (i + 1) values result
      else EncodePBMV_loop_binop p spacing (i + 1) values result)"

definition EncodePBMV_binop :: "PBMVEncoder_binop \<Rightarrow> int list \<Rightarrow> error + float64 list" where
  "EncodePBMV_binop p values =
     (if pbmv_slots_binop p < 0 then Inl (Panic ''makeslice: len out of range'')
      else bindE (shl1 (Delta_binop (pbmv_config_binop p))) (\<lambda>spacing.
           Inr (EncodePBMV_loop_binop p spacing 0 values
                  (replicate (nat (pbmv_slots_binop p)) (Finite 0)))))"

text \<open>
  \<open>ComputeLBc\<close>. The stores are interfaces of the storage collaborator: records of
  their methods. \<open>validityBlocks[b]\<close> panics when \<open>b\<close> is out of range.
\<close>

record 'c PBMVStore =
  GetPBMV :: "string \<Rightarrow> int \<Rightarrow> error + 'c"
  PBMV_BlockCount :: int

record 'c BBMVStore =
  GetBBMV :: "string \<Rightarrow> int \<Rightarrow> error + 'c"
  BBMV_BlockCount :: int

record 'c LBcComputer =
  lbc_eval :: "'c Evaluator"
  lbc_config :: LBcConfig

record 'c LBcResult =
  PackedResults :: "'c option list"
  NumBlocks :: int
  RowsPerBlock :: int
  RequiresAggregation :: bool

definition index_block :: "'c list \<Rightarrow> int \<Rightarrow> error + 'c" where
  "index_block blocks b =
     (if 0 \<le> b \<and> b < int (length blocks) then Inr (blocks ! nat b)
      else Inl (Panic ''index out of range''))"

fun ComputeLBc_others ::
  "'c LBcComputer \<Rightarrow> (string \<rightharpoonup> 'c BBMVStore) \<Rightarrow> int \<Rightarrow> string list \<Rightarrow> 'c \<Rightarrow> error + 'c" where
  "ComputeLBc_others l bbmvStores b [] result = Inr result"
| "ComputeLBc_others l bbmvStores b (col # otherColumns) result =
     (case bbmvStores col of
        None \<Rightarrow> Inl (Errorf ''no BBMV store for column'')
      | Some store \<Rightarrow>
          bindE (wrapE ''failed to get BBMV'' (GetBBMV store col b)) (\<lambda>bbmv.
          bindE (wrapE ''block mul failed'' (Mul (lbc_eval l) result bbmv)) (\<lambda>result.
          bindE (wrapE ''block rescale failed'' (Rescale (lbc_eval l) result)) (\<lambda>result.
          ComputeLBc_others l bbmvStores b otherColumns result))))"

definition ComputeLBc_block ::
  "'c LBcComputer \<Rightarrow> string \<Rightarrow> 'c PBMVStore \<Rightarrow> string list \<Rightarrow> (string \<rightharpoonup> 'c BBMVStore)
     \<Rightarrow> 'c list \<Rightarrow> int \<Rightarrow> error + 'c" where
  "ComputeLBc_block l f0Column pbmvStore otherColumns bbmvStores validityBlocks b =
     bindE (wrapE ''failed to get PBMV'' (GetPBMV pbmvStore f0Column b)) (\<lambda>pbmv.
     bindE (index_block validityBlocks b) (\<lambda>validity.
     bindE (wrapE ''block validity mul failed'' (Mul (lbc_eval l) pbmv validity)) (\<lambda>result.
     bindE (wrapE ''block validity rescale failed'' (Rescale (lbc_eval l) result)) (\<lambda>result.
     ComputeLBc_others l bbmvStores b otherColumns result))))"

function ComputeLBc_blocks ::
  "'c LBcComputer \<Rightarrow> string \<Rightarrow> 'c PBMVStore \<Rightarrow> string list \<Rightarrow> (string \<rightharpoonup> 'c BBMVStore)
     \<Rightarrow> 'c list \<Rightarrow> int \<Rightarrow> int \<Rightarrow> 'c list \<Rightarrow> error + 'c list" where
  "ComputeLBc_blocks l f0Column pbmvStore otherColumns bbmvStores validityBlocks blockCount b results =
     (if b < blockCount then
        bindE (ComputeLBc_block l f0Column pbmvStore otherColumns bbmvStores validityBlocks b)
          (\<lambda>result.
        ComputeLBc_blocks l f0Column pbmvStore otherColumns bbmvStores validityBlocks
          blockCount (b + 1) (results @ [result]))
      else Inr results)"
  by pat_completeness auto
termination
  by (relation "measure (\<lambda>(l, f0, ps, oc, bs, vb, blockCount, b, results). nat (blockCount - b))")
     auto

fun ComputeLBc_sum :: "'c LBcComputer \<Rightarrow> 'c list \<Rightarrow> 'c option \<Rightarrow> error + 'c option" where
  "ComputeLBc_sum l [] packed = Inr packed"
| "ComputeLBc_sum l (r # results) packed =
     bindE (case packed of
              None \<Rightarrow> Inr (Some r)
            | Some p \<Rightarrow> bindE (wrapE ''block sum failed'' (AddInPlace (lbc_eval l) p r))
                          (\<lambda>p'. Inr (Some p'))) (\<lambda>packed'.
     ComputeLBc_sum l results packed')"

definition ComputeLBc ::
  "'c LBcComputer \<Rightarrow> string \<Rightarrow> 'c PBMVStore \<Rightarrow> string list \<Rightarrow> (string \<rightharpoonup> 'c BBMVStore)
     \<Rightarrow> 'c list \<Rightarrow> error + 'c LBcResult" where
  "ComputeLBc l f0Column pbmvStore otherColumns bbmvStores validityBlocks =
     (let blockCount = PBMV_BlockCount pbmvStore in
      if blockCount < 0 then Inl (Panic ''makeslice: len out of range'')
      else
        bindE (ComputeLBc_blocks l f0Column pbmvStore otherColumns bbmvStores validityBlocks
                 blockCount 0 []) (\<lambda>results.
        bindE (ComputeLBc_sum l results None) (\<lambda>packed.
        let slots = Slots (lbc_eval l); rowsPerBlock = slots in
        bindE (shl1 (Delta (lbc_config l))) (\<lambda>spacing.
        let requiresAgg = (wrap64 (blockCount * rowsPerBlock) > wrap64 (slots * spacing)) in
        Inr \<lparr>PackedResults = [packed], NumBlocks = blockCount,
             RowsPerBlock = rowsPerBlock, RequiresAggregation = requiresAgg\<rparr>))))"

text \<open>The mantissa budget as the specification writes it.\<close>

definition spec_budget_exceeded :: "int \<Rightarrow> int \<Rightarrow> int \<Rightarrow> int \<Rightarrow> nat \<Rightarrow> bool" where
  "spec_budget_exceeded \<delta> \<Delta> \<Lambda> S\<^sub>f slots =
     (\<delta> + \<Delta> * (S\<^sub>f - 1) + \<Lambda> + int (ceillog2 slots) > 52)"

section \<open>Job specifications (package jobs)\<close>

text \<open>\<open>Operation\<close> is a string type; an \<open>error\<close> result is \<open>None\<close> for \<open>nil\<close>.\<close>

type_synonym Operation = string

definition OpMean :: Operation where "OpMean = ''mean''"
definition OpVariance :: Operation where "OpVariance = ''var''"
definition OpStdev :: Operation where "OpStdev = ''stdev''"
definition OpCorr :: Operation where "OpCorr = ''corr''"
definition OpBc :: Operation where "OpBc = ''bc''"
definition OpBa :: Operation where "OpBa = ''ba''"
definition OpBv :: Operation where "OpBv = ''bv''"
definition OpLBc :: Operation where "OpLBc = ''lbc''"
definition OpPercentile :: Operation where "OpPercentile = ''percentile''"
definition OpLookup :: Operation where "OpLookup = ''lookup''"

record Condition =
  Column :: string
  Value :: int

record JobSpec =
  ID :: string
  Operation :: Operation
  Table :: string
  InputColumns :: "string list"
  TargetColumn :: string
  Conditions :: "Condition list"
  K :: float64
  LookupValue :: int
  PrivacyPolicy :: string
  OutputFormat :: string

definition Validate :: "JobSpec \<Rightarrow> error option" where
  "Validate j =
     (if ID j = [] then Some (Errorf ''job ID is required'')
      else if Table j = [] then Some (Errorf ''table name is required'')
      else if Operation j = OpMean \<or> Operation j = OpVariance \<or> Operation j = OpStdev then
        (if length (InputColumns j) \<noteq> 1
         then Some (Errorf ''operation requires exactly one input column'') else None)
      else if Operation j = OpCorr then
        (if length (InputColumns j) \<noteq> 2
         then Some (Errorf ''operation requires exactly two input columns'') else None)
      else if Operation j = OpBc then
        (if length (Conditions j) = 0
         then Some (Errorf ''operation bc requires at least one condition'') else None)
      else if Operation j = OpBa \<or> Operation j = OpBv then
        (if length (Conditions j) = 0
         then Some (Errorf ''operation requires at least one condition'')
         else if TargetColumn j = []
         then Some (Errorf ''operation requires a target column'') else None)
      else if Operation j = OpLBc then
        (if length (InputColumns j) < 2
         then Some (Errorf ''operation lbc requires at least two input columns'') else None)
      else if Operation j = OpPercentile then
        (if length (InputColumns j) \<noteq> 1
         then Some (Errorf ''operation percentile requires exactly one ordinal column'')
         else if f64_less (K j) (Finite 0) \<or> f64_less (Finite 100) (K j)
         then Some (Errorf ''k must be between 0 and 100'') else None)
      else if Operation j = OpLookup then
        (if length (InputColumns j) \<noteq> 1
         then Some (Errorf ''operation lookup requires exactly one categorical column'')
         else if TargetColumn j = []
         then Some (Errorf ''operation lookup requires a target column'') else None)
      else Some (Errorf ''unknown operation''))"

section \<open>The job runner: parameter checks of runPercentile (cmd da_run)\<close>

text \<open>
  \<open>runPercentile\<close> checks its job before any HE work; what follows the two checks
  (loading the blocks and calling \<open>Percentile\<close>) is the parameter \<open>body\<close>.
  \<open>f64_le\<close> is \<open><=\<close> on \<open>float64\<close>.
\<close>

fun f64_le :: "float64 \<Rightarrow> float64 \<Rightarrow> bool" where
  "f64_le NaN _ = False"
| "f64_le _ NaN = False"
| "f64_le (Finite a) (Finite b) = (a \<le> b)"
| "f64_le (Finite a) PosInf = True"
| "f64_le (Finite a) NegInf = False"
| "f64_le PosInf PosInf = True"
| "f64_le PosInf _ = False"
| "f64_le NegInf _ = True"

definition runPercentile :: "(JobSpec \<Rightarrow> error + 'c) \<Rightarrow> JobSpec \<Rightarrow> error + 'c" where
  "runPercentile body job =
     (if length (InputColumns job) < 1
      then Inl (Errorf ''percentile requires an input column'')
      else if f64_le (K job) (Finite 0) \<or> f64_less (Finite 100) (K job)
      then Inl (Errorf ''k must be between 0 and 100'')
      else body job)"

section \<open>Ciphertext serialization (package storage)\<close>

text \<open>
  \<open>MarshalBinary\<close> and \<open>UnmarshalBinary\<close> belong to the HE backend and are parameters.
  An \<open>io.Writer\<close> is a state \<open>'w\<close> with a write operation that may fail; the reader is
  an in-memory byte stream, from which \<open>binary.Read\<close> and \<open>io.ReadFull\<close> take exactly
  the bytes asked for or fail. \<open>binary.Write\<close> of a \<open>uint64\<close> in little-endian order
  writes the 8 bytes \<open>le_bytes\<close>, least significant first. \<open>ReadCiphertext\<close> returns
  the ciphertext together with the rest of the stream. \<open>make([]byte, length)\<close>
  panics when the \<open>uint64\<close> length does not fit an \<open>int\<close>.
\<close>

type_synonym byte = "8 word"

definition le_bytes :: "64 word \<Rightarrow> byte list" where
  "le_bytes w = map (\<lambda>i. ucast (drop_bit (8 * i) w)) [0..<8]"

definition from_le_bytes :: "byte list \<Rightarrow> 64 word" where
  "from_le_bytes bs = foldr (\<lambda>b acc. ucast b OR push_bit 8 acc) bs 0"

definition buffer_Write :: "byte list \<Rightarrow> byte list \<Rightarrow> error + byte list" where
  "buffer_Write w bs = Inr (w @ bs)"

definition ReadFull :: "byte list \<Rightarrow> nat \<Rightarrow> error + (byte list \<times> byte list)" where
  "ReadFull r n =
     (if length r < n then Inl (Errorf ''unexpected EOF'') else Inr (take n r, drop n r))"

definition WriteCiphertext ::
  "('c \<Rightarrow> error + byte list) \<Rightarrow> ('w \<Rightarrow> byte list \<Rightarrow> error + 'w) \<Rightarrow> 'w \<Rightarrow> 'c \<Rightarrow> error + 'w" where
  "WriteCiphertext MarshalBinary Write w ct =
     bindE (wrapE ''failed to marshal ciphertext'' (MarshalBinary ct)) (\<lambda>data.
     let len = (word_of_nat (length data) :: 64 word) in
     bindE (wrapE ''failed to write length'' (Write w (le_bytes len))) (\<lambda>w.
     wrapE ''failed to write ciphertext data'' (Write w data)))"

definition ReadCiphertext ::
  "(byte list \<Rightarrow> error + 'c) \<Rightarrow> byte list \<Rightarrow> error + ('c \<times> byte list)" where
  "ReadCiphertext UnmarshalBinary r =
     bindE (wrapE ''failed to read length'' (ReadFull r 8)) (\<lambda>(prefix, r).
     let len = from_le_bytes prefix in
     if unat len \<ge> 2 ^ 63 then Inl (Panic ''makeslice: len out of range'')
     else
       bindE (wrapE ''failed to read ciphertext data'' (ReadFull r (unat len))) (\<lambda>(data, r).
       bindE (wrapE ''failed to unmarshal ciphertext'' (UnmarshalBinary data)) (\<lambda>ct.
       Inr (ct, r))))"

section \<open>The slotwise plaintext model of the backend\<close>

text \<open>
  In the plaintext model a ciphertext is the vector of its slot values, computed in
  exact real arithmetic, with its level. Addition, subtraction and multiplication
  act slot by slot, a rescale consumes one level, a rotation by \<open>k\<close> moves slot
  \<open>i + k\<close> to slot \<open>i\<close> (cyclically), bootstrapping returns the same slots at the
  refreshed level, and no operation fails.
\<close>

record plain_ct =
  pslots :: "real list"
  plevel :: int

definition plain_backend :: "int \<Rightarrow> plain_ct backend" where
  "plain_backend S =
     \<lparr>ckks_MaxSlots = S,
      ct_Level = plevel,
      rlwe_NewCiphertext = (\<lambda>lvl. \<lparr>pslots = replicate (nat S) 0, plevel = lvl\<rparr>),
      ckks_AddNew = (\<lambda>a b. Inr \<lparr>pslots = map2 (+) (pslots a) (pslots b),
                                plevel = min (plevel a) (plevel b)\<rparr>),
      ckks_Add = (\<lambda>a b. Inr \<lparr>pslots = map2 (+) (pslots a) (pslots b),
                             plevel = min (plevel a) (plevel b)\<rparr>),
      ckks_SubNew = (\<lambda>a b. Inr \<lparr>pslots = map2 (-) (pslots a) (pslots b),
                                plevel = min (plevel a) (plevel b)\<rparr>),
      ckks_MulRelinNew = (\<lambda>a b. Inr \<lparr>pslots = map2 (*) (pslots a) (pslots b),
                                     plevel = min (plevel a) (plevel b)\<rparr>),
      ckks_MulConst = (\<lambda>a c. Inr (a\<lparr>pslots := map (\<lambda>x. x * c) (pslots a)\<rparr>)),
      ckks_AddConst = (\<lambda>a c. Inr (a\<lparr>pslots := map (\<lambda>x. x + c) (pslots a)\<rparr>)),
      ckks_Rescale = (\<lambda>a. Inr (a\<lparr>plevel := plevel a - 1\<rparr>)),
      ckks_RotateNew = (\<lambda>a k. Inr (a\<lparr>pslots :=
                          rotate (nat (k mod int (length (pslots a)))) (pslots a)\<rparr>))\<rparr>"

definition plain_bootstrapper :: "int \<Rightarrow> int \<Rightarrow> plain_ct bootstrapping_Evaluator" where
  "plain_bootstrapper minIn refreshed =
     \<lparr>MinimumInputLevel = minIn, btp_Bootstrap = (\<lambda>a. Inr (a\<lparr>plevel := refreshed\<rparr>))\<rparr>"

definition plain_Evaluator ::
  "int \<Rightarrow> plain_ct bootstrapping_Evaluator option \<Rightarrow> plain_ct Evaluator" where
  "plain_Evaluator S btp = NewEvaluator (plain_backend S) btp"

text \<open>
  The doubling reduction as the specification writes it: one step is
  \<open>ct \<leftarrow> ct + rotate(ct, r)\<close>, and the steps run over \<open>r = 1, 2, 4, \<dots>, 2^(k-1)\<close>.
\<close>

definition doubling_step :: "plain_ct \<Rightarrow> nat \<Rightarrow> plain_ct" where
  "doubling_step ct r =
     \<lparr>pslots = map2 (+) (pslots ct) (rotate r (pslots ct)), plevel = plevel ct\<rparr>"

definition doubling_reduction :: "nat \<Rightarrow> plain_ct \<Rightarrow> plain_ct" where
  "doubling_reduction k ct = foldl doubling_step ct (map (\<lambda>j. 2 ^ j) [0..<k])"

section \<open>Basic facts\<close>

text \<open>The loops are unfolded one pass at a time, by hand.\<close>

declare SumSlots_loop.simps [simp del]

declare Power_loop.simps [simp del]

lemma bindE_simps [simp]:
  "bindE (Inr x) f = f x"
  "bindE (Inl err) f = Inl err"
  by (simp_all add: bindE_def)

lemma wrapE_simps [simp]:
  "wrapE msg (Inr x) = Inr x"
  "wrapE msg (Inl err) = Inl (Wrapf msg err)"
  by (simp_all add: wrapE_def)

lemma wrap64_id: "in_int64 x \<Longrightarrow> wrap64 x = x"
  unfolding wrap64_def in_int64_def
  by (rule signed_take_bit_int_eq_self) simp_all

lemmas Op_defs = OpMean_def OpVariance_def OpStdev_def OpCorr_def OpBc_def OpBa_def OpBv_def
  OpLBc_def OpPercentile_def OpLookup_def

text \<open>The facade over the plaintext backend computes slot by slot and never fails.\<close>

lemma plain_ops:
  "Mul (plain_Evaluator S btp) a b =
     Inr \<lparr>pslots = map2 (*) (pslots a) (pslots b), plevel = min (plevel a) (plevel b)\<rparr>"
  "Add (plain_Evaluator S btp) a b =
     Inr \<lparr>pslots = map2 (+) (pslots a) (pslots b), plevel = min (plevel a) (plevel b)\<rparr>"
  "AddInPlace (plain_Evaluator S btp) a b =
     Inr \<lparr>pslots = map2 (+) (pslots a) (pslots b), plevel = min (plevel a) (plevel b)\<rparr>"
  "Sub (plain_Evaluator S btp) a b =
     Inr \<lparr>pslots = map2 (-) (pslots a) (pslots b), plevel = min (plevel a) (plevel b)\<rparr>"
  "MulConst (plain_Evaluator S btp) a c = Inr (a\<lparr>pslots := map (\<lambda>x. x * c) (pslots a)\<rparr>)"
  "AddConst (plain_Evaluator S btp) a c = Inr (a\<lparr>pslots := map (\<lambda>x. x + c) (pslots a)\<rparr>)"
  "Rescale (plain_Evaluator S btp) a = Inr (a\<lparr>plevel := plevel a - 1\<rparr>)"
  "Rotate (plain_Evaluator S btp) a k =
     Inr (a\<lparr>pslots := rotate (nat (k mod int (length (pslots a)))) (pslots a)\<rparr>)"
  "Slots (plain_Evaluator S btp) = S"
  by (simp_all add: Mul_def Add_def AddInPlace_def Sub_def MulConst_def AddConst_def
        Rescale_def Rotate_def Slots_def plain_Evaluator_def NewEvaluator_def plain_backend_def)

lemma zip_map_same: "zip (map f xs) (map g xs) = map (\<lambda>x. (f x, g x)) xs"
  by (induction xs) simp_all

lemma zip_map_same_left: "zip xs (map g xs) = map (\<lambda>x. (x, g x)) xs"
  by (induction xs) simp_all

lemma zip_map_same_right: "zip (map f xs) xs = map (\<lambda>x. (f x, x)) xs"
  by (induction xs) simp_all

lemmas zip_same_simps = zip_map_same zip_map_same_left zip_map_same_right zip_same_conv_map

section \<open>LBc configuration validation\<close>

text \<open>
  Claim C1, as stated: validation fails exactly when
  \<open>\<delta> + \<Delta>\<cdot>(S\<^sub>f - 1) + \<Lambda> + \<lceil>log\<^sub>2 slots\<rceil> > 52\<close>. The default configuration with four
  categories exceeds that budget for 8192 slots (and for any slot count), and
  \<open>ValidateLBcConfig\<close> accepts it: the function takes no slot count, and tests the
  PBMV exponent and \<open>\<Lambda>\<close> each on its own against 52.
\<close>

theorem ValidateLBcConfig_budget_counterexample:
  "\<not> (ValidateLBcConfig DefaultLBcConfig 4 \<noteq> None
      \<longleftrightarrow> spec_budget_exceeded (DeltaOffset DefaultLBcConfig) (Delta DefaultLBcConfig)
            (LambdaBig DefaultLBcConfig) 4 8192)"
proof -
  have "(8192::nat) = 2 ^ 13" by simp
  then have "ceillog2 8192 = 13" by (simp only: ceillog2_2_power)
  then show ?thesis
    by (simp add: ValidateLBcConfig_def DefaultLBcConfig_def spec_budget_exceeded_def wrap64_def)
qed

text \<open>
  Claim C1, amended: when the exponent \<open>\<delta> + \<Delta>\<cdot>(S\<^sub>f - 1)\<close> is computed without
  overflow of the 64-bit \<open>int\<close>, \<open>ValidateLBcConfig\<close> returns an error exactly when
  \<open>\<delta> + \<Delta>\<cdot>(S\<^sub>f - 1) > 52\<close> or \<open>\<Lambda> > 52\<close>.
\<close>

theorem ValidateLBcConfig_iff:
  assumes "in_int64 (categories - 1)"
    and "in_int64 (Delta config * (categories - 1))"
    and "in_int64 (DeltaOffset config + Delta config * (categories - 1))"
  shows "ValidateLBcConfig config categories \<noteq> None \<longleftrightarrow>
           DeltaOffset config + Delta config * (categories - 1) > 52 \<or> LambdaBig config > 52"
  using assms by (simp add: ValidateLBcConfig_def wrap64_id Let_def)

theorem ValidateLBcConfig_iff_witness:
  "in_int64 (6 - 1) \<and> in_int64 (10 * (6 - 1)) \<and> in_int64 (10 + 10 * (6 - 1))
   \<and> ValidateLBcConfig \<lparr>Delta = 10, DeltaOffset = 10, LambdaBig = 30\<rparr> 6 \<noteq> None
   \<and> ValidateLBcConfig \<lparr>Delta = 10, DeltaOffset = 10, LambdaBig = 30\<rparr> 5 = None"
  using ValidateLBcConfig_iff [of 6 "\<lparr>Delta = 10, DeltaOffset = 10, LambdaBig = 30\<rparr>"]
    ValidateLBcConfig_iff [of 5 "\<lparr>Delta = 10, DeltaOffset = 10, LambdaBig = 30\<rparr>"]
  by (simp add: in_int64_def)

section \<open>Job validation\<close>




section \<open>The PBMV encoder\<close>

lemma EncodePBMV_loop_length: "length (EncodePBMV_loop p i vs res) = length res"
  by (induction vs arbitrary: i res) (simp_all add: Let_def)

lemma EncodePBMV_loop_nth:
  "j < length res \<Longrightarrow>
   EncodePBMV_loop p (int n) vs res ! j =
     (if n \<le> j \<and> j - n < length vs \<and> int j < pbmv_slots p
         \<and> 1 \<le> vs ! (j - n) \<and> vs ! (j - n) \<le> pbmv_categories p
      then Ldexp1 (wrap64 (DeltaOffset (pbmv_config p)
                    + wrap64 (Delta (pbmv_config p) * wrap64 (vs ! (j - n) - 1))))
      else res ! j)"
proof (induction vs arbitrary: n res)
  case Nil
  then show ?case by simp
next
  case (Cons v vs)
  have suc: "int n + 1 = int (Suc n)" by simp
  show ?case
  proof (cases "int n \<ge> pbmv_slots p")
    case True
    then show ?thesis by auto
  next
    case False
    note inslots = this
    show ?thesis
    proof (cases "v < 1 \<or> v > pbmv_categories p")
      case True
      with inslots Cons.prems show ?thesis
        unfolding EncodePBMV_loop.simps suc
        by (auto simp add: Cons.IH nth_Cons' Suc_diff_le less_Suc_eq_le simp del: of_nat_Suc)
    next
      case False
      with inslots Cons.prems show ?thesis
        unfolding EncodePBMV_loop.simps suc Let_def
        by (auto simp add: Cons.IH nth_Cons' nth_list_update simp del: of_nat_Suc)
    qed
  qed
qed





text \<open>
  The encoder of the other draft (\<open>binop.go\<close>) writes the category value itself, and
  nothing for a value whose position \<open>(v - 1)\<cdot>2^\<Delta>\<close> is not below the slot count.
\<close>

lemma EncodePBMV_binop_emits_value:
  "EncodePBMV_binop \<lparr>pbmv_config_binop = \<lparr>Delta_binop = 1, LambdaBig_binop = 10\<rparr>,
                     pbmv_categories_binop = 3, pbmv_slots_binop = 4\<rparr> [1, 2, 3]
     = Inr [Finite 1, Finite 2, Finite 0, Finite 0]"
  by (simp add: EncodePBMV_binop_def shl1_def wrap64_def numeral_eq_Suc)

section \<open>Slot reduction\<close>

lemma doubling_step_length [simp]: "length (pslots (doubling_step ct r)) = length (pslots ct)"
  by (simp add: doubling_step_def)

lemma doubling_step_nth:
  assumes "i < length (pslots ct)"
  shows "pslots (doubling_step ct r) ! i
           = pslots ct ! i + pslots ct ! ((i + r) mod length (pslots ct))"
  using assms by (simp add: doubling_step_def nth_rotate add.commute)

text \<open>
  Over the plaintext backend one pass of the loop of \<open>SumSlots\<close> is one doubling
  step, and the loop started at \<open>rot = 2^j\<close> runs the steps for \<open>2^j, \<dots>, 2^(k-1)\<close>.
\<close>

lemma plain_step:
  assumes "length (pslots ct) = 2 ^ k" and "j < k"
  shows "bindE (wrapE msg1 (Rotate (plain_Evaluator S btp) ct (2 ^ j)))
           (\<lambda>rotated. bindE (wrapE msg2 (AddInPlace (plain_Evaluator S btp) ct rotated)) f)
         = f (doubling_step ct (2 ^ j))"
proof -
  have n: "nat ((2::int) ^ j) = 2 ^ j" by (simp add: nat_power_eq)
  have "(2::int) ^ j < 2 ^ k" using assms(2) by simp
  then have m: "(2::int) ^ j mod int (length (pslots ct)) = 2 ^ j"
    using assms(1) by simp
  show ?thesis
    by (simp add: plain_ops doubling_step_def m n)
qed

lemma SumSlots_loop_fold:
  assumes "length (pslots ct) = 2 ^ k" and "j \<le> k"
  shows "SumSlots_loop (plain_Evaluator S btp) (2 ^ k) (2 ^ j) ct
           = Inr (foldl doubling_step ct (map (\<lambda>i. 2 ^ i) [j..<k]))"
  using assms
proof (induction "k - j" arbitrary: j ct)
  case 0
  then have "j = k" by simp
  then show ?case by (subst SumSlots_loop.simps) simp
next
  case (Suc d)
  then have jk: "j < k" and d: "d = k - Suc j" by simp_all
  have guard: "(0::int) < 2 ^ j \<and> (2::int) ^ j < 2 ^ k" using jk by simp
  have mult: "(2::int) ^ j * 2 = 2 ^ Suc j" by simp
  have "SumSlots_loop (plain_Evaluator S btp) (2 ^ k) (2 ^ j) ct
      = SumSlots_loop (plain_Evaluator S btp) (2 ^ k) (2 ^ Suc j) (doubling_step ct (2 ^ j))"
    by (subst SumSlots_loop.simps) (simp add: jk mult plain_step [OF Suc.prems(1) jk])
  also have "\<dots> = Inr (foldl doubling_step (doubling_step ct (2 ^ j))
                          (map (\<lambda>i. 2 ^ i) [Suc j..<k]))"
    using Suc.hyps(1) [OF d] Suc.prems(1) jk by simp
  also have "\<dots> = Inr (foldl doubling_step ct (map (\<lambda>i. 2 ^ i) [j..<k]))"
    using jk by (simp add: upt_conv_Cons)
  finally show ?case .
qed


text \<open>
  After the steps for \<open>2^j, \<dots>, 2^(k-1)\<close> slot \<open>i\<close> holds the sum of the slots at
  distance \<open>m\<cdot>2^j\<close> from \<open>i\<close>, cyclically.
\<close>

lemma sum_in_pairs:
  fixes f :: "nat \<Rightarrow> real"
  shows "(\<Sum>m<2 * n. f m) = (\<Sum>m<n. f (2 * m) + f (2 * m + 1))"
  by (induction n) simp_all

lemma doubling_fold_length:
  "length (pslots (foldl doubling_step ct rs)) = length (pslots ct)"
  by (induction rs arbitrary: ct) simp_all

lemma doubling_fold_nth:
  assumes "length (pslots ct) = 2 ^ k" and "j \<le> k" and "i < 2 ^ k"
  shows "pslots (foldl doubling_step ct (map (\<lambda>i. 2 ^ i) [j..<k])) ! i
           = (\<Sum>m<2 ^ (k - j). pslots ct ! ((i + m * 2 ^ j) mod 2 ^ k))"
  using assms
proof (induction "k - j" arbitrary: j ct)
  case 0
  then show ?case by simp
next
  case (Suc d)
  then have jk: "j < k" and d: "d = k - Suc j" by simp_all
  let ?ct' = "doubling_step ct (2 ^ j)"
  let ?g = "\<lambda>m. pslots ct ! ((i + m * 2 ^ j) mod 2 ^ k)"
  have len': "length (pslots ?ct') = 2 ^ k" using Suc.prems(1) by simp
  have step: "pslots ?ct' ! ((i + m * 2 ^ Suc j) mod 2 ^ k) = ?g (2 * m) + ?g (2 * m + 1)" for m
  proof -
    have lt: "(i + m * 2 ^ Suc j) mod 2 ^ k < length (pslots ct)"
      using Suc.prems(1) by simp
    have a: "i + m * 2 ^ Suc j = i + (2 * m) * 2 ^ j"
      by simp
    have b: "i + (2 * m) * 2 ^ j + 2 ^ j = i + (2 * m + 1) * 2 ^ j"
      by (simp add: algebra_simps)
    have "pslots ?ct' ! ((i + m * 2 ^ Suc j) mod 2 ^ k)
        = pslots ct ! ((i + m * 2 ^ Suc j) mod 2 ^ k)
          + pslots ct ! (((i + m * 2 ^ Suc j) mod 2 ^ k + 2 ^ j) mod 2 ^ k)"
      by (simp only: doubling_step_nth [OF lt] Suc.prems(1))
    also have "\<dots> = pslots ct ! ((i + m * 2 ^ Suc j) mod 2 ^ k)
          + pslots ct ! ((i + m * 2 ^ Suc j + 2 ^ j) mod 2 ^ k)"
      by (simp only: mod_add_left_eq)
    also have "\<dots> = ?g (2 * m) + ?g (2 * m + 1)"
      by (simp only: a b)
    finally show ?thesis .
  qed
  have pow: "(2::nat) ^ (k - j) = 2 * 2 ^ (k - Suc j)"
    using jk by (metis Suc_diff_Suc power_Suc)
  have "pslots (foldl doubling_step ct (map (\<lambda>i. 2 ^ i) [j..<k])) ! i
      = pslots (foldl doubling_step ?ct' (map (\<lambda>i. 2 ^ i) [Suc j..<k])) ! i"
    using jk by (simp add: upt_conv_Cons)
  also have "\<dots> = (\<Sum>m<2 ^ (k - Suc j). pslots ?ct' ! ((i + m * 2 ^ Suc j) mod 2 ^ k))"
    using Suc.hyps(1) [OF d len' _ Suc.prems(3)] jk by simp
  also have "\<dots> = (\<Sum>m<2 ^ (k - Suc j). ?g (2 * m) + ?g (2 * m + 1))"
    by (simp only: step)
  also have "\<dots> = (\<Sum>m<2 ^ (k - j). ?g m)"
    unfolding pow by (rule sum_in_pairs [symmetric])
  finally show ?case .
qed

text \<open>
  Claim C4. For a ciphertext with \<open>S = 2^k\<close> slots, \<open>SumSlots\<close> succeeds in the
  plaintext model, its result is the doubling reduction
  \<open>ct \<leftarrow> ct + rotate(ct, r)\<close> for \<open>r = 1, 2, 4, \<dots>, S/2\<close>, and slot 0 of the result
  holds the sum of all \<open>S\<close> initial slot values.
\<close>

theorem SumSlots_doubling_sum:
  assumes "length (pslots ct) = 2 ^ k"
  shows "SumSlots (plain_Evaluator (2 ^ k) btp) ct = Inr (doubling_reduction k ct)
       \<and> pslots (doubling_reduction k ct) ! 0 = sum_list (pslots ct)"
proof -
  have run: "SumSlots (plain_Evaluator (2 ^ k) btp) ct = Inr (doubling_reduction k ct)"
    using SumSlots_loop_fold [OF assms, of 0 "2 ^ k" btp]
    by (simp add: SumSlots_def plain_ops doubling_reduction_def)
  have "pslots (doubling_reduction k ct) ! 0 = (\<Sum>m<2 ^ k. pslots ct ! (m mod 2 ^ k))"
    using doubling_fold_nth [OF assms, of 0 0] by (simp add: doubling_reduction_def)
  also have "\<dots> = (\<Sum>m<2 ^ k. pslots ct ! m)"
    by (rule sum.cong) simp_all
  also have "\<dots> = sum_list (pslots ct)"
    using assms by (simp add: sum_list_sum_nth atLeast0LessThan)
  finally show ?thesis using run by simp
qed

theorem SumSlots_doubling_sum_witness:
  "SumSlots (plain_Evaluator 4 None) \<lparr>pslots = [1, 2, 3, 4], plevel = 7\<rparr>
     = Inr \<lparr>pslots = [10, 10, 10, 10], plevel = 7\<rparr>"
  using SumSlots_doubling_sum [of "\<lparr>pslots = [1, 2, 3, 4], plevel = 7\<rparr>" 2 None]
  by (simp add: doubling_reduction_def doubling_step_def upt_rec numeral_2_eq_2)

section \<open>Bootstrap decisions\<close>

text \<open>
  Claim C5. \<open>NeedsBootstrap\<close> of an evaluator built by \<open>NewEvaluator\<close> holds exactly
  when the level of the ciphertext is at most the minimum level, which is the
  bootstrapper's minimum input level, or 2 when there is no bootstrapper; and
  \<open>MaybeBootstrap\<close> returns its argument unchanged, without error, whenever
  \<open>NeedsBootstrap\<close> is false and whenever no bootstrapper is available.
\<close>

theorem MaybeBootstrap_noop:
  fixes be :: "'c backend" and e :: "'c Evaluator"
  shows "(NeedsBootstrap (NewEvaluator be btp) ct \<longleftrightarrow>
            ct_Level be ct \<le> (case btp of None \<Rightarrow> 2 | Some b \<Rightarrow> MinimumInputLevel b))
       \<and> (\<not> NeedsBootstrap e ct' \<or> \<not> CanBootstrap e \<longrightarrow> MaybeBootstrap e ct' = Inr ct')"
  by (simp add: NeedsBootstrap_def NewEvaluator_def MaybeBootstrap_def)

text \<open>
  Two instances: a level-1 ciphertext on an evaluator without bootstrapper (a
  bootstrap is needed and unavailable), and a level-9 ciphertext on an evaluator
  whose bootstrapper asks for level 3 (no bootstrap is needed).
\<close>

theorem MaybeBootstrap_noop_witness:
  "NeedsBootstrap (plain_Evaluator 4 None) \<lparr>pslots = [1, 2, 3, 4], plevel = 1\<rparr>
   \<and> \<not> CanBootstrap (plain_Evaluator 4 None)
   \<and> MaybeBootstrap (plain_Evaluator 4 None) \<lparr>pslots = [1, 2, 3, 4], plevel = 1\<rparr>
       = Inr \<lparr>pslots = [1, 2, 3, 4], plevel = 1\<rparr>
   \<and> \<not> NeedsBootstrap (plain_Evaluator 4 (Some (plain_bootstrapper 3 12)))
         \<lparr>pslots = [1, 2, 3, 4], plevel = 9\<rparr>
   \<and> MaybeBootstrap (plain_Evaluator 4 (Some (plain_bootstrapper 3 12)))
        \<lparr>pslots = [1, 2, 3, 4], plevel = 9\<rparr>
       = Inr \<lparr>pslots = [1, 2, 3, 4], plevel = 9\<rparr>"
  using MaybeBootstrap_noop [of "plain_backend 4" None "\<lparr>pslots = [1, 2, 3, 4], plevel = 1\<rparr>"
      "plain_Evaluator 4 None" "\<lparr>pslots = [1, 2, 3, 4], plevel = 1\<rparr>"]
    MaybeBootstrap_noop [of "plain_backend 4" "Some (plain_bootstrapper 3 12)"
      "\<lparr>pslots = [1, 2, 3, 4], plevel = 9\<rparr>"
      "plain_Evaluator 4 (Some (plain_bootstrapper 3 12))"
      "\<lparr>pslots = [1, 2, 3, 4], plevel = 9\<rparr>"]
  by (simp add: plain_Evaluator_def plain_backend_def plain_bootstrapper_def CanBootstrap_def
        NewEvaluator_def)

section \<open>The Newton iteration of INVNTHSQRT\<close>

text \<open>
  Binary exponentiation over the plaintext backend: with \<open>base\<close> holding the
  \<open>b\<close>-th and \<open>result\<close> the \<open>a\<close>-th powers of the slots \<open>ys\<close>, the loop returns the
  powers \<open>b \<cdot> pwr\<close> when nothing has been accumulated yet, and \<open>a + b \<cdot> pwr\<close> otherwise.
\<close>

lemma Power_loop_plain:
  assumes "pslots base = map (\<lambda>y. y ^ b) ys" and "pslots result = map (\<lambda>y. y ^ a) ys"
    and "0 \<le> pwr"
  shows "\<exists>r. Power_loop (plain_Evaluator S btp) result base pwr first = Inr r
           \<and> pslots r = map (\<lambda>y. y ^ (if first \<and> 0 < pwr then b * nat pwr
                                         else a + b * nat pwr)) ys"
  using assms
proof (induction "nat pwr" arbitrary: result base pwr first a b rule: less_induct)
  case less
  let ?E = "plain_Evaluator S btp"
  show ?case
  proof (cases "pwr = 0")
    case True
    then show ?thesis using less.prems by (subst Power_loop.simps) simp
  next
    case False
    with less.prems have pos: "0 < pwr" by simp
    let ?q = "pwr div 2"
    have q: "nat ?q < nat pwr" "0 \<le> ?q" using pos by simp_all
    define base' where "base' = (if ?q > 0
        then \<lparr>pslots = map2 (*) (pslots base) (pslots base),
              plevel = min (plevel base) (plevel base) - 1\<rparr> else base)"
    define b' where "b' = (if ?q > 0 then 2 * b else b)"
    have base': "pslots base' = map (\<lambda>y. y ^ b') ys"
      using less.prems(1)
      by (simp add: base'_def b'_def zip_same_simps o_def power_add [symmetric] mult_2)
    have nextb: "(if ?q > 0 then bindE (Mul ?E base base) (\<lambda>b. Rescale ?E b) else Inr base)
                  = Inr base'"
      by (simp add: base'_def plain_ops)
    have b'q: "b' * nat ?q = 2 * b * nat ?q"
      using q(2) by (cases "?q > 0") (simp_all add: b'_def)
    show ?thesis
    proof (cases "pwr AND 1 = 1")
      case odd: True
      then have "pwr = 2 * ?q + 1"
        by (simp add: and_one_eq) presburger
      then have "nat pwr = nat (2 * ?q + 1)" by simp
      also have "\<dots> = 2 * nat ?q + 1"
        using q(2) by (simp add: nat_add_distrib nat_mult_distrib)
      finally have pwr: "nat pwr = 2 * nat ?q + 1" .
      show ?thesis
      proof (cases first)
        case True
        have "Power_loop ?E result base pwr first = Power_loop ?E base base' ?q False"
          using pos odd True nextb by (subst Power_loop.simps) simp
        moreover have "\<exists>r. Power_loop ?E base base' ?q False = Inr r
           \<and> pslots r = map (\<lambda>y. y ^ (b + b' * nat ?q)) ys"
          using less.hyps [OF q(1) base' less.prems(1) q(2), of False] by simp
        ultimately show ?thesis
          using True pos pwr b'q by (simp add: algebra_simps)
      next
        case False
        define result' where "result' = \<lparr>pslots = map2 (*) (pslots result) (pslots base),
              plevel = min (plevel result) (plevel base) - 1\<rparr>"
        have result': "pslots result' = map (\<lambda>y. y ^ (a + b)) ys"
          using less.prems(1,2) by (simp add: result'_def zip_same_simps o_def power_add)
        have "Power_loop ?E result base pwr first = Power_loop ?E result' base' ?q False"
          using pos odd False nextb
          by (subst Power_loop.simps) (simp add: plain_ops result'_def)
        moreover have "\<exists>r. Power_loop ?E result' base' ?q False = Inr r
           \<and> pslots r = map (\<lambda>y. y ^ (a + b + b' * nat ?q)) ys"
          using less.hyps [OF q(1) base' result' q(2), of False] by simp
        ultimately show ?thesis
          using False pos pwr b'q by (simp add: algebra_simps)
      qed
    next
      case even: False
      then have "pwr mod 2 = 0"
        by (simp add: and_one_eq)
      then have eq: "pwr = 2 * ?q" by presburger
      then have qpos: "0 < ?q" using pos by linarith
      from eq have "nat pwr = nat (2 * ?q)" by simp
      also have "\<dots> = 2 * nat ?q"
        using q(2) by (simp add: nat_mult_distrib)
      finally have pwr: "nat pwr = 2 * nat ?q" .
      have "Power_loop ?E result base pwr first = Power_loop ?E result base' ?q first"
        using pos even nextb by (subst Power_loop.simps) simp
      moreover have "\<exists>r. Power_loop ?E result base' ?q first = Inr r
           \<and> pslots r = map (\<lambda>y. y ^ (if first \<and> 0 < ?q then b' * nat ?q
                                         else a + b' * nat ?q)) ys"
        using less.hyps [OF q(1) base' less.prems(2) q(2), of first] by simp
      ultimately show ?thesis
        using pos pwr qpos b'q by (cases first) (auto simp add: mult_ac)
    qed
  qed
qed


lemma Power_plain:
  assumes "1 \<le> n"
  shows "\<exists>r. Power (plain_Evaluator S btp) ct n = Inr r
           \<and> pslots r = map (\<lambda>y. y ^ nat n) (pslots ct)"
proof (cases "n = 1")
  case True
  then show ?thesis by (simp add: Power_def)
next
  case False
  with assms have "Power (plain_Evaluator S btp) ct n
      = Power_loop (plain_Evaluator S btp) ct ct n True"
    by (simp add: Power_def)
  moreover have "\<exists>r. Power_loop (plain_Evaluator S btp) ct ct n True = Inr r
           \<and> pslots r = map (\<lambda>y. y ^ (if True \<and> 0 < n then 1 * nat n else 1 + 1 * nat n))
                            (pslots ct)"
    using assms by (intro Power_loop_plain) simp_all
  ultimately show ?thesis using assms by simp
qed

lemma plain_Bootstrap:
  "Bootstrap (plain_Evaluator S (Some (plain_bootstrapper minIn refreshed))) ct
     = Inr (ct\<lparr>plevel := refreshed\<rparr>)"
  by (simp add: Bootstrap_def plain_Evaluator_def NewEvaluator_def plain_bootstrapper_def)

lemma plain_MaybeBootstrap:
  assumes "btp = None \<or> btp = Some (plain_bootstrapper minIn refreshed)"
  shows "\<exists>r. MaybeBootstrap (plain_Evaluator S btp) ct = Inr r \<and> pslots r = pslots ct"
  using assms
  by (auto simp add: MaybeBootstrap_def CanBootstrap_def plain_Bootstrap)
     (simp_all add: plain_Evaluator_def NewEvaluator_def)

lemma newton_slots:
  fixes xs ys :: "real list"
  shows "map (\<lambda>v. v * c) (map2 (*) ys (map (\<lambda>v. v * d) (map (\<lambda>v. v + k)
            (map2 (*) xs (map h ys)))))
       = map2 (\<lambda>x y. c * (y * (d * (x * h y + k)))) xs ys"
  by (auto simp add: list_eq_iff_nth_eq mult_ac)

text \<open>
  Claim C6. For every exponent \<open>n \<ge> 1\<close> (with \<open>n + 1\<close> an \<open>int\<close>), one pass of the
  loop of \<open>INVNTHSQRT\<close> over the plaintext backend returns \<open>y'\<close> with, in every slot,
  \<open>y' = (1/n) \<cdot> (y \<cdot> ((-1) \<cdot> (x\<cdot>y\<^sup>n - (n+1))))\<close>, which is
  \<open>(1/n) \<cdot> (y \<cdot> ((n+1) - x\<cdot>y\<^sup>n))\<close>. The evaluator either has the plaintext
  bootstrapper, or has none and the pass is not one at which the loop calls
  \<open>Bootstrap\<close> directly (the cadence check, which without a bootstrapper fails when
  the level of \<open>y\<close> is at most 2).
\<close>

theorem INVNTHSQRT_iter_newton:
  assumes n: "1 \<le> N config" and n1: "in_int64 (N config + 1)"
    and btp: "btp = None \<or> btp = Some (plain_bootstrapper minIn refreshed)"
    and due: "btp = None \<Longrightarrow> \<not> (0 < BootstrapFrequency config \<and> 0 < iter
                 \<and> iter mod BootstrapFrequency config = 0 \<and> plevel y \<le> 2)"
  shows "\<exists>y'. INVNTHSQRT_iter (plain_Evaluator S btp) config x iter y = Inr y'
     \<and> pslots y' = map2 (\<lambda>x y. 1 / real_of_int (N config)
            * (y * (- 1 * (x * y ^ nat (N config) - (real_of_int (N config) + 1)))))
          (pslots x) (pslots y)
     \<and> pslots y' = map2 (\<lambda>x y. 1 / real_of_int (N config)
            * (y * ((real_of_int (N config) + 1) - x * y ^ nat (N config))))
          (pslots x) (pslots y)"
proof -
  let ?E = "plain_Evaluator S btp"
  let ?n = "real_of_int (N config)"
  have w: "wrap64 (N config + 1) = N config + 1" using n1 by (rule wrap64_id)
  obtain y1 where y1: "(if BootstrapFrequency config > 0 \<and> iter > 0
                  \<and> iter mod BootstrapFrequency config = 0 \<and> NeedsBootstrap ?E y
               then wrapE ''iteration bootstrap failed'' (Bootstrap ?E y)
               else Inr y) = Inr y1" and y1s: "pslots y1 = pslots y"
  proof (cases "btp = None")
    case True
    with due have "\<not> (0 < BootstrapFrequency config \<and> 0 < iter
                 \<and> iter mod BootstrapFrequency config = 0 \<and> NeedsBootstrap ?E y)"
      by (simp add: NeedsBootstrap_def plain_Evaluator_def NewEvaluator_def plain_backend_def)
    then show ?thesis using that [of y] by auto
  next
    case False
    with btp have some: "btp = Some (plain_bootstrapper minIn refreshed)" by simp
    show ?thesis
    proof (cases "0 < BootstrapFrequency config \<and> 0 < iter
                 \<and> iter mod BootstrapFrequency config = 0 \<and> NeedsBootstrap ?E y")
      case True
      have "Bootstrap ?E y = Inr (y\<lparr>plevel := refreshed\<rparr>)"
        unfolding some by (rule plain_Bootstrap)
      with True show ?thesis using that [of "y\<lparr>plevel := refreshed\<rparr>"] by simp
    next
      case False
      then show ?thesis using that [of y] by auto
    qed
  qed
  obtain yN where yN: "(if N config = 1 then Inr y1
               else wrapE ''iteration power failed'' (Power ?E y1 (N config))) = Inr yN"
    and yNs: "pslots yN = map (\<lambda>y. y ^ nat (N config)) (pslots y)"
  proof (cases "N config = 1")
    case True
    then show ?thesis using that [of y1] y1s by simp
  next
    case False
    from Power_plain [OF n, of S btp y1] obtain r where
      "Power ?E y1 (N config) = Inr r" "pslots r = map (\<lambda>y. y ^ nat (N config)) (pslots y1)"
      by blast
    then show ?thesis using that [of r] False y1s by simp
  qed
  define m1 where "m1 = \<lparr>pslots = map2 (*) (pslots x) (pslots yN),
                         plevel = min (plevel x) (plevel yN)\<rparr>"
  define t0 where "t0 = m1\<lparr>plevel := plevel m1 - 1\<rparr>"
  have mul1: "Mul ?E x yN = Inr m1" by (simp add: plain_ops m1_def)
  have resc1: "Rescale ?E m1 = Inr t0" by (simp add: plain_ops t0_def)
  obtain t where t: "MaybeBootstrap ?E t0 = Inr t" and ts: "pslots t = pslots t0"
    using plain_MaybeBootstrap [OF btp] by blast
  define u1 where "u1 = t\<lparr>pslots := map (\<lambda>v. v + - real_of_int (N config + 1)) (pslots t)\<rparr>"
  define u where "u = u1\<lparr>pslots := map (\<lambda>v. v * - 1) (pslots u1)\<rparr>"
  define m2 where "m2 = \<lparr>pslots = map2 (*) (pslots y1) (pslots u),
                         plevel = min (plevel y1) (plevel u)\<rparr>"
  define p0 where "p0 = m2\<lparr>plevel := plevel m2 - 1\<rparr>"
  have d1: "AddConst ?E t (- real_of_int (N config + 1)) = Inr u1"
    unfolding u1_def by (rule plain_ops)
  have d2: "MulConst ?E u1 (- 1) = Inr u"
    unfolding u_def by (rule plain_ops)
  have mul2: "Mul ?E y1 u = Inr m2" by (simp add: plain_ops m2_def)
  have resc2: "Rescale ?E m2 = Inr p0" by (simp add: plain_ops p0_def)
  obtain p where p: "MaybeBootstrap ?E p0 = Inr p" and ps: "pslots p = pslots p0"
    using plain_MaybeBootstrap [OF btp] by blast
  define y' where "y' = p\<lparr>pslots := map (\<lambda>v. v * (1 / ?n)) (pslots p)\<rparr>"
  have d3: "MulConst ?E p (1 / ?n) = Inr y'"
    unfolding y'_def by (rule plain_ops)
  have run: "INVNTHSQRT_iter ?E config x iter y = Inr y'"
    unfolding INVNTHSQRT_iter_def Let_def
    by (simp only: y1 yN mul1 resc1 t w d1 d2 mul2 resc2 p d3 bindE_simps wrapE_simps)
  have slots: "pslots y' = map2 (\<lambda>x y. 1 / ?n
            * (y * ((?n + 1) - x * y ^ nat (N config)))) (pslots x) (pslots y)"
    using n
    by (auto simp add: y'_def ps p0_def m2_def u_def u1_def ts t0_def m1_def yNs y1s
        list_eq_iff_nth_eq field_simps)
  have "(\<lambda>x y. 1 / ?n * (y * (- 1 * (x * y ^ nat (N config) - (?n + 1)))))
      = (\<lambda>x y. 1 / ?n * (y * ((?n + 1) - x * y ^ nat (N config))))"
    by (intro ext) simp
  with slots run show ?thesis by simp
qed


theorem INVNTHSQRT_iter_newton_witness:
  "\<exists>y'. INVNTHSQRT_iter (plain_Evaluator 2 None) DefaultINVSQRTConfig
           \<lparr>pslots = [4, 1], plevel = 9\<rparr> 0 \<lparr>pslots = [1 / 2, 1 / 2], plevel = 9\<rparr> = Inr y'
        \<and> pslots y' = [1 / 2, 11 / 16]"
  using INVNTHSQRT_iter_newton [of DefaultINVSQRTConfig None 0 0 0
      "\<lparr>pslots = [1 / 2, 1 / 2], plevel = 9\<rparr>" 2 "\<lparr>pslots = [4, 1], plevel = 9\<rparr>"]
  by (simp add: DefaultINVSQRTConfig_def in_int64_def power2_eq_square)

section \<open>The aggregation flag of ComputeLBc\<close>

lemma bindE_InrE:
  assumes "bindE r f = Inr y"
  obtains x where "r = Inr x" and "f x = Inr y"
  using assms by (cases r) simp_all

text \<open>
  Whenever \<open>ComputeLBc\<close> returns a result, its flag is the comparison
  \<open>blockCount * rowsPerBlock > slots * (1 << \<Delta>)\<close> on 64-bit integers, with
  \<open>rowsPerBlock = slots\<close>.
\<close>

lemma ComputeLBc_flag:
  assumes "ComputeLBc l f0Column pbmvStore otherColumns bbmvStores validityBlocks = Inr res"
  shows "0 \<le> Delta (lbc_config l) \<and> 0 \<le> PBMV_BlockCount pbmvStore
       \<and> NumBlocks res = PBMV_BlockCount pbmvStore
       \<and> RowsPerBlock res = Slots (lbc_eval l)
       \<and> RequiresAggregation res =
           (wrap64 (PBMV_BlockCount pbmvStore * Slots (lbc_eval l))
              > wrap64 (Slots (lbc_eval l) * wrap64 (2 ^ nat (Delta (lbc_config l)))))"
proof -
  have nb: "0 \<le> PBMV_BlockCount pbmvStore"
    using assms unfolding ComputeLBc_def Let_def by (simp split: if_splits)
  with assms obtain results packed spacing where
    sp: "shl1 (Delta (lbc_config l)) = Inr spacing" and
    res: "res = \<lparr>PackedResults = [packed], NumBlocks = PBMV_BlockCount pbmvStore,
             RowsPerBlock = Slots (lbc_eval l),
             RequiresAggregation =
               (wrap64 (PBMV_BlockCount pbmvStore * Slots (lbc_eval l))
                  > wrap64 (Slots (lbc_eval l) * spacing))\<rparr>"
    unfolding ComputeLBc_def Let_def
    by (simp del: ComputeLBc_blocks.simps) (elim bindE_InrE, auto)
  from sp have "0 \<le> Delta (lbc_config l)" and "spacing = wrap64 (2 ^ nat (Delta (lbc_config l)))"
    by (simp_all add: shl1_def push_bit_eq_mult split: if_splits)
  with nb res show ?thesis by simp
qed

lemma ceil_div_gt_iff:
  fixes R S P :: int
  assumes "0 < S"
  shows "(R + S - 1) div S > P \<longleftrightarrow> R > S * P"
proof -
  have eq: "(R + S - 1 + (- (P + 1)) * S) div S = (R + S - 1) div S + (- (P + 1))"
    using assms by (simp only: div_mult_self1 div_mult_self2 div_mult_self3 div_mult_self4)
  have "P < (R + S - 1) div S \<longleftrightarrow> 0 \<le> (R + S - 1) div S + (- (P + 1))"
    by linarith
  also have "\<dots> \<longleftrightarrow> 0 \<le> (R + S - 1 + (- (P + 1)) * S) div S"
    by (simp only: eq)
  also have "\<dots> \<longleftrightarrow> 0 \<le> R + S - 1 + (- (P + 1)) * S"
    using assms by (rule pos_imp_zdiv_nonneg_iff)
  also have "\<dots> \<longleftrightarrow> R > S * P"
    by (simp add: algebra_simps) linarith
  finally show ?thesis .
qed

text \<open>
  As long as neither product overflows, the flag is \<open>R > S\<cdot>2^\<Delta>\<close> for every row count
  \<open>R\<close> that fills the \<open>NB = \<lceil>R/S\<rceil>\<close> input blocks.
\<close>

lemma ComputeLBc_flag_no_overflow:
  assumes ret: "ComputeLBc l f0Column pbmvStore otherColumns bbmvStores validityBlocks = Inr res"
    and S: "0 < Slots (lbc_eval l)"
    and rhs: "Slots (lbc_eval l) * 2 ^ nat (Delta (lbc_config l)) < 2 ^ 63"
    and lhs: "PBMV_BlockCount pbmvStore * Slots (lbc_eval l) < 2 ^ 63"
    and NB: "PBMV_BlockCount pbmvStore = (R + Slots (lbc_eval l) - 1) div Slots (lbc_eval l)"
  shows "RequiresAggregation res \<longleftrightarrow> R > Slots (lbc_eval l) * 2 ^ nat (Delta (lbc_config l))"
proof -
  let ?S = "Slots (lbc_eval l)" and ?NB = "PBMV_BlockCount pbmvStore"
  let ?P = "(2::int) ^ nat (Delta (lbc_config l))"
  note flag = ComputeLBc_flag [OF ret]
  have big: "(0::int) < 2 ^ 63" by simp
  have P: "0 < ?P" by simp
  have "1 * ?P \<le> ?S * ?P" using S P by (intro mult_right_mono) simp_all
  then have PS: "?P \<le> ?S * ?P" by simp
  have "0 \<le> ?S * ?P" using S P by simp
  moreover have "0 \<le> ?NB * ?S" using S flag by simp
  ultimately have "in_int64 ?P" "in_int64 (?S * ?P)" "in_int64 (?NB * ?S)"
    using rhs lhs P PS big unfolding in_int64_def by linarith+
  then have "RequiresAggregation res \<longleftrightarrow> ?NB * ?S > ?S * ?P"
    using flag by (simp add: wrap64_id)
  also have "\<dots> \<longleftrightarrow> ?NB > ?P" using S by (simp add: mult.commute)
  also have "\<dots> \<longleftrightarrow> R > ?S * ?P" unfolding NB using S by (rule ceil_div_gt_iff)
  finally show ?thesis .
qed

text \<open>
  Claim C7: the flag of the returned result equals \<open>R > S\<cdot>2^\<Delta>\<close>. The code computes
  the right-hand side in 64-bit arithmetic: with \<open>\<Delta> = 51\<close> (which \<open>ValidateLBcConfig\<close>
  accepts for two categories) and 8192 slots, \<open>slots * (1 << \<Delta>)\<close> is \<open>2^64\<close> and wraps
  to 0, so one block of at most 8192 rows sets the flag although
  \<open>8192 \<le> 8192\<cdot>2^51\<close>.
\<close>

theorem ComputeLBc_flag_overflow:
  "ComputeLBc
     \<lparr>lbc_eval = plain_Evaluator 8192 None,
      lbc_config = \<lparr>Delta = 51, DeltaOffset = 0, LambdaBig = 0\<rparr>\<rparr>
     ''f0''
     \<lparr>GetPBMV = (\<lambda>col b. Inr \<lparr>pslots = replicate 8192 1, plevel = 5\<rparr>), PBMV_BlockCount = 1\<rparr>
     [] Map.empty [\<lparr>pslots = replicate 8192 1, plevel = 5\<rparr>]
   = Inr \<lparr>PackedResults = [Some \<lparr>pslots = replicate 8192 1, plevel = 4\<rparr>], NumBlocks = 1,
          RowsPerBlock = 8192, RequiresAggregation = True\<rparr>
   \<and> \<not> ((8192::int) > 8192 * 2 ^ 51)"
  by (simp add: ComputeLBc_def ComputeLBc_block_def index_block_def plain_ops shl1_def
        wrap64_def Let_def)

section \<open>The percentile flip mapping\<close>

lemma flip_spec_poly: "flip_spec s = - 0.5 * s\<^sup>2 + 0.5 * s + 1"
  by (simp add: flip_spec_def power2_eq_square algebra_simps)

text \<open>
  Claim C8. In the plaintext model \<open>applyFlipMapping\<close> succeeds and maps every slot
  \<open>s\<close> to \<open>f(s) = -0.5\<cdot>(s - 0.5)\<^sup>2 + 1.125\<close>; this \<open>f(s)\<close> equals
  \<open>-0.5\<cdot>s\<^sup>2 + 0.5\<cdot>s + 1\<close> for every \<open>s\<close>, \<open>f(-1) = 0\<close> and \<open>f(1) = 1\<close>.
\<close>

theorem applyFlipMapping_flip:
  "applyFlipMapping (plain_Evaluator S btp) x =
     Inr \<lparr>pslots = map flip_spec (pslots x), plevel = plevel x - 1\<rparr>
   \<and> flip_spec s = - 0.5 * s\<^sup>2 + 0.5 * s + 1
   \<and> flip_spec (- 1) = 0 \<and> flip_spec 1 = 1"
proof -
  have "applyFlipMapping (plain_Evaluator S btp) x =
     Inr \<lparr>pslots = map (\<lambda>s. s * s * (- 0.5) + s * 0.5 + 1) (pslots x), plevel = plevel x - 1\<rparr>"
    by (simp add: applyFlipMapping_def plain_ops zip_same_simps o_def)
  moreover have "(\<lambda>s::real. s * s * (- 0.5) + s * 0.5 + 1) = flip_spec"
    by (rule ext) (simp add: flip_spec_poly power2_eq_square)
  moreover have "flip_spec (- 1) = 0" "flip_spec 1 = 1"
    by (simp_all add: flip_spec_poly)
  ultimately show ?thesis by (simp add: flip_spec_poly)
qed

section \<open>Ciphertext serialization round trip\<close>

lemma le_bytes_length: "length (le_bytes w) = 8"
  by (simp add: le_bytes_def)

lemma map_upt_Suc_shift: "map f [0..<Suc k] = f 0 # map (\<lambda>i. f (Suc i)) [0..<k]"
  by (simp add: upt_conv_Cons map_Suc_upt [symmetric] del: upt_Suc)

lemma from_le_step:
  fixes w :: "64 word"
  shows "ucast (ucast (drop_bit (8 * j) w) :: 8 word) OR
          push_bit 8 (take_bit (8 * k) (drop_bit (8 * Suc j) w))
        = take_bit (8 * Suc k) (drop_bit (8 * j) w)"
proof (rule bit_word_eqI)
  fix n :: nat
  assume n: "n < LENGTH(64)"
  show "bit (ucast (ucast (drop_bit (8 * j) w) :: 8 word) OR
          push_bit 8 (take_bit (8 * k) (drop_bit (8 * Suc j) w))) n
        = bit (take_bit (8 * Suc k) (drop_bit (8 * j) w)) n"
  proof (cases "n < 8")
    case True
    then show ?thesis by (simp add: bit_simps)
  next
    case False
    then have "8 * Suc j + (n - 8) = 8 * j + n" by simp
    with False n show ?thesis by (auto simp add: bit_simps)
  qed
qed

lemma from_le_bytes_gen:
  "from_le_bytes (map (\<lambda>i. ucast (drop_bit (8 * (i + j)) w)) [0..<k])
     = take_bit (8 * k) (drop_bit (8 * j) w)"
proof (induction k arbitrary: j)
  case 0
  show ?case by (simp add: from_le_bytes_def)
next
  case (Suc k)
  have "from_le_bytes (map (\<lambda>i. ucast (drop_bit (8 * (i + j)) w)) [0..<Suc k])
      = ucast (ucast (drop_bit (8 * j) w) :: 8 word) OR
          push_bit 8 (from_le_bytes (map (\<lambda>i. ucast (drop_bit (8 * (i + Suc j)) w)) [0..<k]))"
    unfolding map_upt_Suc_shift by (simp add: from_le_bytes_def)
  also have "\<dots> = ucast (ucast (drop_bit (8 * j) w) :: 8 word) OR
          push_bit 8 (take_bit (8 * k) (drop_bit (8 * Suc j) w))"
    by (simp only: Suc.IH)
  also have "\<dots> = take_bit (8 * Suc k) (drop_bit (8 * j) w)"
    by (rule from_le_step)
  finally show ?case .
qed

lemma from_le_bytes_le_bytes: "from_le_bytes (le_bytes w) = w"
proof -
  have "from_le_bytes (le_bytes w) = take_bit (8 * 8) (drop_bit (8 * 0) w)"
    unfolding le_bytes_def using from_le_bytes_gen [of 0 w 8] by simp
  also have "\<dots> = w"
    by (simp add: take_bit_word_eq_self)
  finally show ?thesis .
qed


text \<open>
  Claim C9. When the backend marshals the ciphertext to \<open>data\<close> and unmarshals
  \<open>data\<close> back to the ciphertext (\<open>len(data)\<close> is a Go \<open>int\<close>, so below \<open>2^63\<close>),
  \<open>WriteCiphertext\<close> appends to the buffer the 8 bytes of the little-endian
  \<open>uint64\<close> length of \<open>data\<close>, followed by \<open>data\<close>, and \<open>ReadCiphertext\<close> on these
  bytes returns the ciphertext written and leaves the rest of the stream.
\<close>

theorem WriteCiphertext_ReadCiphertext_roundtrip:
  assumes "MarshalBinary ct = Inr data" and "UnmarshalBinary data = Inr ct"
    and "length data < 2 ^ 63"
  shows "WriteCiphertext MarshalBinary buffer_Write w ct
           = Inr (w @ le_bytes (word_of_nat (length data)) @ data)
       \<and> length (le_bytes (word_of_nat (length data))) = 8
       \<and> unat (from_le_bytes (le_bytes (word_of_nat (length data)))) = length data
       \<and> ReadCiphertext UnmarshalBinary (le_bytes (word_of_nat (length data)) @ data @ rest)
           = Inr (ct, rest)"
proof -
  have len: "unat (word_of_nat (length data) :: 64 word) = length data"
    using assms(3) by (simp add: unat_of_nat)
  have w: "WriteCiphertext MarshalBinary buffer_Write w ct
           = Inr (w @ le_bytes (word_of_nat (length data)) @ data)"
    using assms(1) by (simp add: WriteCiphertext_def buffer_Write_def)
  have r: "ReadCiphertext UnmarshalBinary (le_bytes (word_of_nat (length data)) @ data @ rest)
           = Inr (ct, rest)"
    using assms(2,3) len
    by (simp add: ReadCiphertext_def ReadFull_def le_bytes_length from_le_bytes_le_bytes)
  show ?thesis using w r len by (simp add: le_bytes_length from_le_bytes_le_bytes)
qed

text \<open>
  An instance: a marshaller that adds 1 to every byte of a three-byte ciphertext.
\<close>

lemma le_bytes_3: "le_bytes 3 = [3, 0, 0, 0, 0, 0, 0, 0]"
  by (simp add: le_bytes_def upt_rec drop_bit_eq_div)

theorem WriteCiphertext_ReadCiphertext_roundtrip_witness:
  "WriteCiphertext (\<lambda>ct. Inr (map (\<lambda>x. x + 1) ct)) buffer_Write [] [10, 20, 30 :: byte]
     = Inr [3, 0, 0, 0, 0, 0, 0, 0, 11, 21, 31]
   \<and> ReadCiphertext (\<lambda>data. Inr (map (\<lambda>x. x - 1) data))
        [3, 0, 0, 0, 0, 0, 0, 0, 11, 21, 31, 7] = Inr ([10, 20, 30], [7])"
  using WriteCiphertext_ReadCiphertext_roundtrip
    [of "\<lambda>ct. Inr (map (\<lambda>x. x + 1) ct)" "[10, 20, 30 :: byte]" "[11, 21, 31]"
        "\<lambda>data. Inr (map (\<lambda>x. x - 1) data)" "[]" "[7]"]
  by (simp add: le_bytes_3)

section \<open>Aggregation over no blocks\<close>

text \<open>
  Claim C10. Over the empty list of blocks \<open>MaskedSum\<close>, \<open>Count\<close>,
  \<open>MaskedSumOfSquares\<close> and \<open>MaskedCrossSum\<close> return the error "no blocks provided"
  and no ciphertext, on every evaluator; so \<open>Mean\<close>, \<open>Variance\<close>, \<open>Stdev\<close> and
  \<open>Correlation\<close> over no blocks return an error as well.
\<close>

theorem numeric_empty_blocks_fail:
  "MaskedSum e [] [] = Inl (Errorf ''no blocks provided'')
   \<and> Count e [] = Inl (Errorf ''no blocks provided'')
   \<and> MaskedSumOfSquares e [] [] = Inl (Errorf ''no blocks provided'')
   \<and> MaskedCrossSum e [] [] [] = Inl (Errorf ''no blocks provided'')
   \<and> isl (Mean e [] []) \<and> isl (Variance e [] []) \<and> isl (Stdev e [] [])
   \<and> isl (Correlation e [] [] [])"
  by (simp add: MaskedSum_def Count_def MaskedSumOfSquares_def MaskedCrossSum_def
        Mean_def Variance_def Stdev_def Correlation_def)

theorem numeric_empty_blocks_fail_witness:
  "MaskedSum (plain_Evaluator 4 None) [] [] = Inl (Errorf ''no blocks provided'')
   \<and> Count (plain_Evaluator 4 None) [] = Inl (Errorf ''no blocks provided'')
   \<and> MaskedSumOfSquares (plain_Evaluator 4 None) [] [] = Inl (Errorf ''no blocks provided'')
   \<and> MaskedCrossSum (plain_Evaluator 4 None) [] [] [] = Inl (Errorf ''no blocks provided'')
   \<and> isl (Mean (plain_Evaluator 4 None) [] []) \<and> isl (Variance (plain_Evaluator 4 None) [] [])
   \<and> isl (Stdev (plain_Evaluator 4 None) [] [])
   \<and> isl (Correlation (plain_Evaluator 4 None) [] [] [])"
  by (rule numeric_empty_blocks_fail)

end
